theory Spec2Isabelle
  imports Main "HOL-Library.Word" "HOL-Library.Stream"
begin

section \<open>The snake game of main.go\<close>

text \<open>
  A shallow embedding of the game logic of \<^verbatim>\<open>main.go\<close>: the snake body and its
  movement, food placement, the per-state update functions and the state changes.
  Rendering (images, drawing) is left out; it does not write any field modelled here.

  Go's \<^verbatim>\<open>int\<close> is modelled by \<^typ>\<open>int\<close>: every integer of the game (grid
  coordinates, tick counters, the score, the body length) stays far below the machine
  range, so no operation wraps. The two \<^verbatim>\<open>uint8\<close> enumerations are 8-bit words,
  so that the values outside the named constants exist as they do in Go.
\<close>

subsection \<open>Types and constants\<close>

type_synonym snakeDirection = "8 word"
type_synonym snakeTile = int
type_synonym gameState = "8 word"

definition StateMainMenu :: gameState where "StateMainMenu = 1"
definition StateGameStart :: gameState where "StateGameStart = 2"
definition StateInGame :: gameState where "StateInGame = 3"
definition StateGameEnd :: gameState where "StateGameEnd = 4"
definition StateGameOver :: gameState where "StateGameOver = 5"

definition UP :: snakeDirection where "UP = 1"
definition DOWN :: snakeDirection where "DOWN = 2"
definition LEFT :: snakeDirection where "LEFT = 3"
definition RIGHT :: snakeDirection where "RIGHT = 4"

definition SnakeTypeHead :: snakeTile where "SnakeTypeHead = 0"
definition SnakeTypeBody :: snakeTile where "SnakeTypeBody = 16"
definition SnakeTypeBend :: snakeTile where "SnakeTypeBend = 32"
definition SnakeTypeTail :: snakeTile where "SnakeTypeTail = 64"

definition SnakeRotationNone :: snakeTile where "SnakeRotationNone = 0"
definition SnakeRotationCCW90 :: snakeTile where "SnakeRotationCCW90 = 1"
definition SnakeRotationCW90 :: snakeTile where "SnakeRotationCW90 = 2"
definition SnakeRotation180 :: snakeTile where "SnakeRotation180 = 4"

definition SnakeHeadUp :: snakeTile where "SnakeHeadUp = SnakeTypeHead + SnakeRotationNone"
definition SnakeHeadDown :: snakeTile where "SnakeHeadDown = SnakeTypeHead + SnakeRotation180"
definition SnakeHeadLeft :: snakeTile where "SnakeHeadLeft = SnakeTypeHead + SnakeRotationCCW90"
definition SnakeHeadRight :: snakeTile where "SnakeHeadRight = SnakeTypeHead + SnakeRotationCW90"

definition SnakeBodyUp :: snakeTile where "SnakeBodyUp = SnakeTypeBody + SnakeRotationNone"
definition SnakeBodyDown :: snakeTile where "SnakeBodyDown = SnakeTypeBody + SnakeRotation180"
definition SnakeBodyLeft :: snakeTile where "SnakeBodyLeft = SnakeTypeBody + SnakeRotationCCW90"
definition SnakeBodyRight :: snakeTile where "SnakeBodyRight = SnakeTypeBody + SnakeRotationCW90"

definition SnakeBendLD :: snakeTile where "SnakeBendLD = SnakeTypeBend + SnakeRotationNone"
definition SnakeBendRU :: snakeTile where "SnakeBendRU = SnakeTypeBend + SnakeRotation180"
definition SnakeBendRD :: snakeTile where "SnakeBendRD = SnakeTypeBend + SnakeRotationCCW90"
definition SnakeBendLU :: snakeTile where "SnakeBendLU = SnakeTypeBend + SnakeRotationCW90"

definition SnakeTailUp :: snakeTile where "SnakeTailUp = SnakeTypeTail + SnakeRotationNone"
definition SnakeTailDown :: snakeTile where "SnakeTailDown = SnakeTypeTail + SnakeRotation180"
definition SnakeTailLeft :: snakeTile where "SnakeTailLeft = SnakeTypeTail + SnakeRotationCCW90"
definition SnakeTailRight :: snakeTile where "SnakeTailRight = SnakeTypeTail + SnakeRotationCW90"

subsection \<open>The data of the game\<close>

text \<open>
  \<^verbatim>\<open>type Food struct { x, y int }\<close>

  The fields \<^verbatim>\<open>x\<close> and \<^verbatim>\<open>y\<close> of the food and of a segment carry the name of
  their struct in front, since the two records cannot share field names.
\<close>

record Food =
  food_x :: int
  food_y :: int

text \<open>
  \<^verbatim>\<open>type SnakeBodySegment struct { x, y int; facing snakeDirection; tile snakeTile;
  next *SnakeBodySegment; skeleton bool }\<close>

  The \<^verbatim>\<open>next\<close> pointers are not a field of the model: a chain of segments is the
  list of its nodes from the first one to the node whose \<^verbatim>\<open>next\<close> is nil, and the
  nil chain is the empty list. Nodes are only made by \<^verbatim>\<open>SpawnSnake\<close> and
  \<^verbatim>\<open>SnakeAdvance\<close> (a fresh node in front of the old chain) and the only write to a
  \<^verbatim>\<open>next\<close> field sets it to nil, so a chain is always finite, acyclic and owned by
  one body.
\<close>

record SnakeBodySegment =
  seg_x :: int
  seg_y :: int
  facing :: snakeDirection
  tile :: snakeTile
  skeleton :: bool

text \<open>
  \<^verbatim>\<open>type SnakeBody struct { Head *SnakeBodySegment; grow bool; length int }\<close>

  The field \<^verbatim>\<open>length\<close> (here \<open>length_field\<close>, beside the length of lists) is a
  counter of its own: the code never recomputes it from the chain. \<^verbatim>\<open>Head\<close> is the
  chain that starts at the head segment.
\<close>

record SnakeBody =
  Head :: "SnakeBodySegment list"
  grow :: bool
  length_field :: int

text \<open>
  Bodies are shared by pointer: \<^verbatim>\<open>g.SnakeBody\<close> and the \<^verbatim>\<open>*SnakeBody\<close>
  argument of a method may or may not be the same object. A pointer is an address of
  the store of bodies, or nil.
\<close>

type_synonym ptr = "nat option"

text \<open>
  \<^verbatim>\<open>type Game struct\<close>, without its images. The last two fields are the store of
  \<^verbatim>\<open>SnakeBody\<close> objects and the next unused address.
\<close>

record Game =
  state :: gameState
  width :: int
  height :: int
  SnakeBody :: ptr
  SnakeDirection :: snakeDirection
  food :: "Food option"
  ticks :: int
  ticksPerMovement :: int
  score :: int
  countDownNum :: int
  countDownTicks :: int
  skeleTicks :: int
  skeleTicksPerSegment :: int
  tongueShow :: bool
  tongueTicks :: int
  tongueTicksMin :: int
  heap :: "nat \<Rightarrow> SnakeBody option"
  heap_next :: nat

text \<open>What ends a call abnormally: a panic, or the error that \<^verbatim>\<open>Update\<close> returns.\<close>

datatype error = NilDereference | IntnInvalidArgument | QPressed

text \<open>
  Reading the body behind a pointer; a nil pointer panics. Go has no dangling pointers:
  an address without an object does not arise, and reading it is an error here as well.
\<close>

definition deref :: "Game \<Rightarrow> ptr \<Rightarrow> error + SnakeBody" where
  "deref g p =
     (case p of
        None \<Rightarrow> Inl NilDereference
      | Some a \<Rightarrow> (case heap g a of None \<Rightarrow> Inl NilDereference | Some b \<Rightarrow> Inr b))"

text \<open>Writing the body behind a pointer that has been read.\<close>

definition store :: "Game \<Rightarrow> ptr \<Rightarrow> SnakeBody \<Rightarrow> Game" where
  "store g p b = (case p of None \<Rightarrow> g | Some a \<Rightarrow> g\<lparr>heap := (heap g)(a \<mapsto> b)\<rparr>)"

subsection \<open>Movement of the body\<close>

text \<open>
  \<^verbatim>\<open>func (g *Game) SnakeGetNextPos(SnakeBody *SnakeBody, d snakeDirection) (x, y int)\<close>

  The head is read inside the four cases of the switch only; for any other \<^verbatim>\<open>d\<close>
  the named results keep their zero values.
\<close>

definition SnakeGetNextPos :: "Game \<Rightarrow> ptr \<Rightarrow> snakeDirection \<Rightarrow> error + (int \<times> int)" where
  "SnakeGetNextPos g p d =
     (case (if d = UP \<or> d = DOWN \<or> d = LEFT \<or> d = RIGHT then
              (case deref g p of
                 Inl e \<Rightarrow> Inl e
               | Inr b \<Rightarrow>
                   (case Head b of
                      [] \<Rightarrow> Inl NilDereference
                    | h # _ \<Rightarrow>
                        Inr (if d = UP then (seg_x h, seg_y h - 1)
                             else if d = DOWN then (seg_x h, seg_y h + 1)
                             else if d = LEFT then (seg_x h - 1, seg_y h)
                             else (seg_x h + 1, seg_y h))))
            else Inr (0, 0)) of
        Inl e \<Rightarrow> Inl e
      | Inr (x0, y0) \<Rightarrow>
          Inr (let x1 = (if x0 < 0 then width g - 1 else x0);
                   x2 = (if x1 > width g - 1 then 0 else x1);
                   y1 = (if y0 < 0 then height g - 1 else y0);
                   y2 = (if y1 > height g - 1 then 0 else y1)
               in (x2, y2)))"

text \<open>\<^verbatim>\<open>func (g *Game) SnakeCheckFood(SnakeBody *SnakeBody) bool\<close>\<close>

definition SnakeCheckFood :: "Game \<Rightarrow> ptr \<Rightarrow> error + (bool \<times> Game)" where
  "SnakeCheckFood g p =
     (case deref g p of
        Inl e \<Rightarrow> Inl e
      | Inr b \<Rightarrow>
          (case Head b of
             [] \<Rightarrow> Inl NilDereference
           | seg # _ \<Rightarrow>
               (case food g of
                  None \<Rightarrow> Inl NilDereference
                | Some f \<Rightarrow>
                    if seg_x seg = food_x f \<and> seg_y seg = food_y f
                    then Inr (True, store (g\<lparr>score := score g + 1\<rparr>) p (b\<lparr>grow := True\<rparr>))
                    else Inr (False, g))))"

text \<open>
  The loop of \<^verbatim>\<open>SnakeCheckDeath\<close>, started at the node \<^verbatim>\<open>seg\<close>: it reads
  \<^verbatim>\<open>seg.x\<close> before it tests \<^verbatim>\<open>seg.next == nil\<close>, so a nil start panics.
\<close>

fun SnakeCheckDeath_loop :: "int \<Rightarrow> int \<Rightarrow> SnakeBodySegment list \<Rightarrow> error + bool" where
  "SnakeCheckDeath_loop x y [] = Inl NilDereference"
| "SnakeCheckDeath_loop x y (seg # rest) =
     (if seg_x seg = x \<and> seg_y seg = y then Inr True
      else if rest = [] then Inr False
      else SnakeCheckDeath_loop x y rest)"

text \<open>
  \<^verbatim>\<open>func (g *Game) SnakeCheckDeath(SnakeBody *SnakeBody, d snakeDirection) bool\<close>

  The next position comes from the argument, the scan starts at
  \<^verbatim>\<open>g.SnakeBody.Head.next\<close>.
\<close>

definition SnakeCheckDeath :: "Game \<Rightarrow> ptr \<Rightarrow> snakeDirection \<Rightarrow> error + bool" where
  "SnakeCheckDeath g p d =
     (case SnakeGetNextPos g p d of
        Inl e \<Rightarrow> Inl e
      | Inr (x, y) \<Rightarrow>
          (case deref g (SnakeBody g) of
             Inl e \<Rightarrow> Inl e
           | Inr gb \<Rightarrow>
               (case Head gb of
                  [] \<Rightarrow> Inl NilDereference
                | _ # rest \<Rightarrow> SnakeCheckDeath_loop x y rest)))"

text \<open>
  A pointer to a node of a chain is the index of the node, or nil.
  \<^verbatim>\<open>seg.next\<close> of the last node is nil.
\<close>

definition node_head :: "SnakeBodySegment list \<Rightarrow> nat option" where
  "node_head chain = (if chain = [] then None else Some 0)"

definition node_next :: "SnakeBodySegment list \<Rightarrow> nat \<Rightarrow> nat option" where
  "node_next chain k = (if Suc k < length chain then Some (Suc k) else None)"

text \<open>
  The loop of \<^verbatim>\<open>SnakeRemoveTail\<close>:
  \<^verbatim>\<open>for i := 1; i < SnakeBody.length-1; i++ { prevSeg = seg; seg = seg.next }\<close>.
  The result is the pair \<^verbatim>\<open>(prevSeg, seg)\<close> at the exit.
\<close>

function SnakeRemoveTail_loop ::
  "SnakeBodySegment list \<Rightarrow> int \<Rightarrow> int \<Rightarrow> nat option \<Rightarrow> nat option
     \<Rightarrow> error + (nat option \<times> nat option)" where
  "SnakeRemoveTail_loop chain n i prevSeg seg =
     (if i < n - 1 then
        (case seg of
           None \<Rightarrow> Inl NilDereference
         | Some k \<Rightarrow> SnakeRemoveTail_loop chain n (i + 1) seg (node_next chain k))
      else Inr (prevSeg, seg))"
  by pat_completeness auto
termination
  by (relation "measure (\<lambda>(chain, n, i, prevSeg, seg). nat (n - 1 - i))") auto

text \<open>
  The tile of the new tail, from the positions of \<^verbatim>\<open>prevSeg\<close> and \<^verbatim>\<open>seg\<close>.
  \<^verbatim>\<open>math.Abs(float64(d)) == 1\<close> holds exactly when the integer \<^verbatim>\<open>d\<close> is 1 or -1.
  When no case of the switch applies the tile stays.
\<close>

definition SnakeRemoveTail_tile :: "SnakeBodySegment \<Rightarrow> SnakeBodySegment \<Rightarrow> snakeTile" where
  "SnakeRemoveTail_tile prevSeg seg =
     (if seg_x prevSeg < seg_x seg then
        (if \<bar>seg_x prevSeg - seg_x seg\<bar> = 1 then SnakeTailLeft else SnakeTailRight)
      else if seg_x prevSeg > seg_x seg then
        (if \<bar>seg_x prevSeg - seg_x seg\<bar> = 1 then SnakeTailRight else SnakeTailLeft)
      else if seg_y prevSeg < seg_y seg then
        (if \<bar>seg_y prevSeg - seg_y seg\<bar> = 1 then SnakeTailUp else SnakeTailDown)
      else if seg_y prevSeg > seg_y seg then
        (if \<bar>seg_y prevSeg - seg_y seg\<bar> = 1 then SnakeTailDown else SnakeTailUp)
      else tile seg)"

text \<open>
  \<^verbatim>\<open>func (g *Game) SnakeRemoveTail(SnakeBody *SnakeBody)\<close>

  \<^verbatim>\<open>seg.next = nil\<close> cuts the chain after node \<^verbatim>\<open>seg\<close>. There is no check of
  \<^verbatim>\<open>length\<close> in the source.
\<close>

definition SnakeRemoveTail :: "Game \<Rightarrow> ptr \<Rightarrow> error + Game" where
  "SnakeRemoveTail g p =
     (case deref g p of
        Inl e \<Rightarrow> Inl e
      | Inr b \<Rightarrow>
          (case SnakeRemoveTail_loop (Head b) (length_field b) 1
                  (node_head (Head b)) (node_head (Head b)) of
             Inl e \<Rightarrow> Inl e
           | Inr (None, _) \<Rightarrow> Inl NilDereference
           | Inr (Some j, None) \<Rightarrow> Inl NilDereference
           | Inr (Some j, Some k) \<Rightarrow>
               (let chain = take (Suc k) (Head b);
                    t = SnakeRemoveTail_tile (chain ! j) (chain ! k)
                in Inr (store g p
                     (b\<lparr>Head := chain[k := (chain ! k)\<lparr>tile := t\<rparr>],
                        length_field := length_field b - 1\<rparr>)))))"

text \<open>
  \<^verbatim>\<open>func (g *Game) SnakeAdvance(SnakeBody *SnakeBody, d snakeDirection)\<close>

  The nested switch gives the tile of the new head and rewrites the tile of the old
  head. For a \<^verbatim>\<open>d\<close> outside the four directions \<^verbatim>\<open>headTile\<close> keeps its zero
  value and the old head is not touched.
\<close>

definition SnakeAdvance_tiles ::
  "snakeDirection \<Rightarrow> SnakeBodySegment list \<Rightarrow> error + (snakeTile \<times> SnakeBodySegment list)" where
  "SnakeAdvance_tiles d chain =
     (if d = UP then
        (case chain of
           [] \<Rightarrow> Inl NilDereference
         | h # rest \<Rightarrow>
             Inr (SnakeHeadUp,
                  h\<lparr>tile := (if facing h = LEFT then SnakeBendRU
                              else if facing h = RIGHT then SnakeBendLU
                              else SnakeBodyUp)\<rparr> # rest))
      else if d = DOWN then
        (case chain of
           [] \<Rightarrow> Inl NilDereference
         | h # rest \<Rightarrow>
             Inr (SnakeHeadDown,
                  h\<lparr>tile := (if facing h = LEFT then SnakeBendRD
                              else if facing h = RIGHT then SnakeBendLD
                              else SnakeBodyDown)\<rparr> # rest))
      else if d = LEFT then
        (case chain of
           [] \<Rightarrow> Inl NilDereference
         | h # rest \<Rightarrow>
             Inr (SnakeHeadLeft,
                  h\<lparr>tile := (if facing h = UP then SnakeBendLD
                              else if facing h = DOWN then SnakeBendLU
                              else SnakeBodyLeft)\<rparr> # rest))
      else if d = RIGHT then
        (case chain of
           [] \<Rightarrow> Inl NilDereference
         | h # rest \<Rightarrow>
             Inr (SnakeHeadRight,
                  h\<lparr>tile := (if facing h = UP then SnakeBendRD
                              else if facing h = DOWN then SnakeBendRU
                              else SnakeBodyRight)\<rparr> # rest))
      else Inr (0, chain))"

definition SnakeAdvance :: "Game \<Rightarrow> ptr \<Rightarrow> snakeDirection \<Rightarrow> error + Game" where
  "SnakeAdvance g p d =
     (case deref g p of
        Inl e \<Rightarrow> Inl e
      | Inr b \<Rightarrow>
          (case SnakeAdvance_tiles d (Head b) of
             Inl e \<Rightarrow> Inl e
           | Inr (headTile, chain) \<Rightarrow>
               (case SnakeGetNextPos (store g p (b\<lparr>Head := chain\<rparr>)) p d of
                  Inl e \<Rightarrow> Inl e
                | Inr (x, y) \<Rightarrow>
                    Inr (store g p
                      (b\<lparr>Head := \<lparr>seg_x = x, seg_y = y, facing = d, tile = headTile,
                                    skeleton = False\<rparr> # chain,
                         length_field := length_field b + 1\<rparr>)))))"

text \<open>
  \<^verbatim>\<open>func (g *Game) SpawnSnake(startXPos, startYPos int) *SnakeBody\<close>

  The new body is a new object of the store; the result is the pointer to it and the
  game with the enlarged store.
\<close>

definition SpawnSnake :: "Game \<Rightarrow> int \<Rightarrow> int \<Rightarrow> ptr \<times> Game" where
  "SpawnSnake g startXPos startYPos =
     (let segTail = \<lparr>seg_x = startXPos, seg_y = startYPos + 2, facing = UP,
                      tile = SnakeTailUp, skeleton = False\<rparr>;
          segMiddle = \<lparr>seg_x = startXPos, seg_y = startYPos + 1, facing = UP,
                        tile = SnakeBodyUp, skeleton = False\<rparr>;
          segHead = \<lparr>seg_x = startXPos, seg_y = startYPos, facing = UP,
                      tile = SnakeHeadUp, skeleton = False\<rparr>;
          sb = \<lparr>Head = [segHead, segMiddle, segTail], grow = False, length_field = 3\<rparr>
      in (Some (heap_next g),
          g\<lparr>heap := (heap g)(heap_next g \<mapsto> sb), heap_next := Suc (heap_next g)\<rparr>))"

subsection \<open>Random numbers\<close>

text \<open>
  The random source is a stream of integers. \<^verbatim>\<open>rand.Intn(n)\<close> panics for
  \<^verbatim>\<open>n <= 0\<close> and otherwise takes the next element into the interval from 0 up to but
  excluding \<^verbatim>\<open>n\<close>; every value of the interval is the result for some stream.
\<close>

definition Intn :: "int \<Rightarrow> int stream \<Rightarrow> error + (int \<times> int stream)" where
  "Intn n rs = (if n \<le> 0 then Inl IntnInvalidArgument else Inr (shd rs mod n, stl rs))"

text \<open>
  A call that may not return has an optional result: \<open>None\<close> is the call that runs
  forever, \<open>Some (Inl e)\<close> the call that ends with \<open>e\<close>.
\<close>

definition bindR ::
  "(error + 'a) option \<Rightarrow> ('a \<Rightarrow> (error + 'b) option) \<Rightarrow> (error + 'b) option" where
  "bindR m f = (case m of None \<Rightarrow> None | Some (Inl e) \<Rightarrow> Some (Inl e) | Some (Inr v) \<Rightarrow> f v)"

subsection \<open>Food\<close>

text \<open>The inner loop of \<^verbatim>\<open>SpawnFood\<close>, from the node \<^verbatim>\<open>seg\<close> on.\<close>

fun SpawnFood_taken :: "int \<Rightarrow> int \<Rightarrow> SnakeBodySegment list \<Rightarrow> error + bool" where
  "SpawnFood_taken x y [] = Inl NilDereference"
| "SpawnFood_taken x y (seg # rest) =
     (if x = seg_x seg \<and> y = seg_y seg then Inr True
      else if rest = [] then Inr False
      else SpawnFood_taken x y rest)"

text \<open>The outer loop of \<^verbatim>\<open>SpawnFood\<close>; it has no bound on the number of rounds.\<close>

partial_function (option) SpawnFood_loop ::
  "Game \<Rightarrow> int stream \<Rightarrow> (error + (int \<times> int \<times> int stream)) option" where
  "SpawnFood_loop g rs =
     (case Intn (width g - 1) rs of
        Inl e \<Rightarrow> Some (Inl e)
      | Inr (x, rs1) \<Rightarrow>
          (case Intn (height g - 1) rs1 of
             Inl e \<Rightarrow> Some (Inl e)
           | Inr (y, rs2) \<Rightarrow>
               (case deref g (SnakeBody g) of
                  Inl e \<Rightarrow> Some (Inl e)
                | Inr b \<Rightarrow>
                    (case SpawnFood_taken x y (Head b) of
                       Inl e \<Rightarrow> Some (Inl e)
                     | Inr taken \<Rightarrow>
                         if \<not> taken then Some (Inr (x, y, rs2))
                         else SpawnFood_loop g rs2))))"

text \<open>\<^verbatim>\<open>func (g *Game) SpawnFood()\<close>\<close>

definition SpawnFood :: "Game \<Rightarrow> int stream \<Rightarrow> (error + (Game \<times> int stream)) option" where
  "SpawnFood g rs =
     bindR (SpawnFood_loop g rs)
       (\<lambda>(x, y, rs'). Some (Inr (g\<lparr>food := Some \<lparr>food_x = x, food_y = y\<rparr>\<rparr>, rs')))"

subsection \<open>Random direction of the menu snake\<close>

text \<open>
  The loop of \<^verbatim>\<open>RandomSnakeDirection\<close>:
  \<^verbatim>\<open>for { d = snakeDirection(rand.Intn(3) + 1); switch currentDirection {...} }\<close>.
\<close>

partial_function (option) RandomSnakeDirection_loop ::
  "snakeDirection \<Rightarrow> int stream \<Rightarrow> (error + (snakeDirection \<times> int stream)) option" where
  "RandomSnakeDirection_loop currentDirection rs =
     (case Intn 3 rs of
        Inl e \<Rightarrow> Some (Inl e)
      | Inr (r, rs1) \<Rightarrow>
          (let d = (word_of_int (r + 1) :: snakeDirection) in
           if currentDirection = UP \<or> currentDirection = DOWN then
             (if d = LEFT \<or> d = RIGHT then Some (Inr (d, rs1))
              else RandomSnakeDirection_loop currentDirection rs1)
           else if currentDirection = LEFT \<or> currentDirection = RIGHT then
             (if d = UP \<or> d = DOWN then Some (Inr (d, rs1))
              else RandomSnakeDirection_loop currentDirection rs1)
           else RandomSnakeDirection_loop currentDirection rs1))"

text \<open>\<^verbatim>\<open>func RandomSnakeDirection(currentDirection snakeDirection) (d snakeDirection)\<close>\<close>

definition RandomSnakeDirection ::
  "snakeDirection \<Rightarrow> int stream \<Rightarrow> (error + (snakeDirection \<times> int stream)) option" where
  "RandomSnakeDirection currentDirection rs =
     (case Intn 100 rs of
        Inl e \<Rightarrow> Some (Inl e)
      | Inr (r, rs1) \<Rightarrow>
          if r \<le> 50 then Some (Inr (currentDirection, rs1))
          else RandomSnakeDirection_loop currentDirection rs1)"

subsection \<open>Reset and change of state\<close>

text \<open>Go's integer division truncates towards zero.\<close>

definition go_quot :: "int \<Rightarrow> int \<Rightarrow> int" where
  "go_quot a b = sgn a * sgn b * (\<bar>a\<bar> div \<bar>b\<bar>)"

text \<open>\<^verbatim>\<open>func (g *Game) Reset()\<close>\<close>

definition Reset :: "Game \<Rightarrow> int stream \<Rightarrow> (error + (Game \<times> int stream)) option" where
  "Reset g rs =
     (let g1 = g\<lparr>ticksPerMovement := 30, SnakeDirection := UP, countDownNum := 3,
                 score := 0, skeleTicks := 0\<rparr>;
          (p, g2) = SpawnSnake g1 (go_quot (width g1) 2) (go_quot (height g1) 2)
      in SpawnFood (g2\<lparr>SnakeBody := p\<rparr>) rs)"

text \<open>\<^verbatim>\<open>g.SnakeBody.Head.facing\<close>\<close>

definition head_facing :: "Game \<Rightarrow> error + snakeDirection" where
  "head_facing g =
     (case deref g (SnakeBody g) of
        Inl e \<Rightarrow> Inl e
      | Inr b \<Rightarrow> (case Head b of [] \<Rightarrow> Inl NilDereference | h # _ \<Rightarrow> Inr (facing h)))"

text \<open>
  The loop of \<^verbatim>\<open>ChangeState\<close> that grows the menu snake:
  \<^verbatim>\<open>for i := 0; i <= rand.Intn(100); i++ { g.SnakeAdvance(g.SnakeBody,
  RandomSnakeDirection(g.SnakeBody.Head.facing)) }\<close>. The condition draws a new random
  number in every round.
\<close>

partial_function (option) ChangeState_loop ::
  "int \<Rightarrow> Game \<Rightarrow> int stream \<Rightarrow> (error + (Game \<times> int stream)) option" where
  "ChangeState_loop i g rs =
     (case Intn 100 rs of
        Inl e \<Rightarrow> Some (Inl e)
      | Inr (r, rs1) \<Rightarrow>
          if i \<le> r then
            (case head_facing g of
               Inl e \<Rightarrow> Some (Inl e)
             | Inr f \<Rightarrow>
                 (case RandomSnakeDirection f rs1 of
                    None \<Rightarrow> None
                  | Some (Inl e) \<Rightarrow> Some (Inl e)
                  | Some (Inr (d, rs2)) \<Rightarrow>
                      (case SnakeAdvance g (SnakeBody g) d of
                         Inl e \<Rightarrow> Some (Inl e)
                       | Inr g' \<Rightarrow> ChangeState_loop (i + 1) g' rs2)))
          else Some (Inr (g, rs1)))"

text \<open>\<^verbatim>\<open>func (g *Game) ChangeState(s gameState)\<close>\<close>

definition ChangeState ::
  "Game \<Rightarrow> gameState \<Rightarrow> int stream \<Rightarrow> (error + (Game \<times> int stream)) option" where
  "ChangeState g s rs =
     (if s = StateMainMenu then
        bindR (Reset g rs) (\<lambda>(g1, rs1).
        bindR (ChangeState_loop 0 g1 rs1) (\<lambda>(g2, rs2).
        Some (Inr (g2\<lparr>ticksPerMovement := 5, state := s\<rparr>, rs2))))
      else if s = StateGameStart then
        bindR (Reset g rs) (\<lambda>(g1, rs1). Some (Inr (g1\<lparr>state := s\<rparr>, rs1)))
      else Some (Inr (g\<lparr>state := s\<rparr>, rs)))"

subsection \<open>One move\<close>

text \<open>
  \<^verbatim>\<open>func (g *Game) SnakeMove(SnakeBody *SnakeBody, d snakeDirection, checkDeath,
  checkFood bool)\<close>
\<close>

definition SnakeMove ::
  "Game \<Rightarrow> ptr \<Rightarrow> snakeDirection \<Rightarrow> bool \<Rightarrow> bool \<Rightarrow> int stream
     \<Rightarrow> (error + (Game \<times> int stream)) option" where
  "SnakeMove g p d checkDeath checkFood rs =
     (case (if checkDeath then SnakeCheckDeath g p d else Inr False) of
        Inl e \<Rightarrow> Some (Inl e)
      | Inr True \<Rightarrow> ChangeState g StateGameEnd rs
      | Inr False \<Rightarrow>
          (case deref g p of
             Inl e \<Rightarrow> Some (Inl e)
           | Inr b \<Rightarrow>
               (case (if \<not> grow b then
                        (case SnakeRemoveTail g p of
                           Inl e \<Rightarrow> Inl e
                         | Inr g1 \<Rightarrow> SnakeAdvance g1 p d)
                      else
                        (case SnakeAdvance g p d of
                           Inl e \<Rightarrow> Inl e
                         | Inr g1 \<Rightarrow>
                             (case deref g1 p of
                                Inl e \<Rightarrow> Inl e
                              | Inr b1 \<Rightarrow> Inr (store g1 p (b1\<lparr>grow := False\<rparr>))))) of
                  Inl e \<Rightarrow> Some (Inl e)
                | Inr g2 \<Rightarrow>
                    if checkFood then
                      (case SnakeCheckFood g2 p of
                         Inl e \<Rightarrow> Some (Inl e)
                       | Inr (True, g3) \<Rightarrow>
                           (case deref g3 p of
                              Inl e \<Rightarrow> Some (Inl e)
                            | Inr b3 \<Rightarrow> SpawnFood (store g3 p (b3\<lparr>grow := True\<rparr>)) rs)
                       | Inr (False, g3) \<Rightarrow> Some (Inr (g3, rs)))
                    else Some (Inr (g2, rs)))))"

subsection \<open>The update functions\<close>

text \<open>
  The keys the game asks about. \<^verbatim>\<open>ebiten.IsKeyPressed\<close> is the input of a tick:
  a predicate on the keys.
\<close>

datatype Key = KeyQ | KeySpace | KeyEscape | KeyArrowUp | KeyArrowDown | KeyArrowLeft
  | KeyArrowRight

text \<open>\<^verbatim>\<open>func (g *Game) RandomSnakeTongue()\<close>\<close>

definition RandomSnakeTongue :: "Game \<Rightarrow> int stream \<Rightarrow> error + (Game \<times> int stream)" where
  "RandomSnakeTongue g rs =
     (let g1 = g\<lparr>tongueTicks := tongueTicks g + 1\<rparr> in
      if tongueTicks g1 \<ge> tongueTicksMin g1 then
        (if tongueShow g1 then Inr (g1\<lparr>tongueShow := False, tongueTicks := 0\<rparr>, rs)
         else
           (case Intn 10000 rs of
              Inl e \<Rightarrow> Inl e
            | Inr (r, rs1) \<Rightarrow>
                if r > 7000 then Inr (g1\<lparr>tongueShow := True, tongueTicks := 0\<rparr>, rs1)
                else Inr (g1\<lparr>tongueTicks := 0\<rparr>, rs1)))
      else Inr (g1, rs))"

text \<open>
  The input switch of \<^verbatim>\<open>UpdateInGame\<close>: the first pressed arrow key decides, and
  the head is read in the case of that key only.
\<close>

definition UpdateInGame_input :: "Game \<Rightarrow> (Key \<Rightarrow> bool) \<Rightarrow> error + Game" where
  "UpdateInGame_input g keys =
     (if keys KeyArrowUp then
        (case head_facing g of
           Inl e \<Rightarrow> Inl e
         | Inr f \<Rightarrow> Inr (if f = LEFT \<or> f = RIGHT then g\<lparr>SnakeDirection := UP\<rparr> else g))
      else if keys KeyArrowDown then
        (case head_facing g of
           Inl e \<Rightarrow> Inl e
         | Inr f \<Rightarrow> Inr (if f = LEFT \<or> f = RIGHT then g\<lparr>SnakeDirection := DOWN\<rparr> else g))
      else if keys KeyArrowLeft then
        (case head_facing g of
           Inl e \<Rightarrow> Inl e
         | Inr f \<Rightarrow> Inr (if f = UP \<or> f = DOWN then g\<lparr>SnakeDirection := LEFT\<rparr> else g))
      else if keys KeyArrowRight then
        (case head_facing g of
           Inl e \<Rightarrow> Inl e
         | Inr f \<Rightarrow> Inr (if f = UP \<or> f = DOWN then g\<lparr>SnakeDirection := RIGHT\<rparr> else g))
      else Inr g)"

text \<open>
  \<^verbatim>\<open>func (g *Game) UpdateInGame() error\<close>

  \<^verbatim>\<open>int(math.Min(float64(g.score), 33))\<close> is the smaller of the score and 33: the
  conversions are exact for a score below \<open>2 ^ 53\<close>.
\<close>

definition UpdateInGame ::
  "Game \<Rightarrow> (Key \<Rightarrow> bool) \<Rightarrow> int stream \<Rightarrow> (error + (Game \<times> int stream)) option" where
  "UpdateInGame g keys rs =
     (case UpdateInGame_input g keys of
        Inl e \<Rightarrow> Some (Inl e)
      | Inr g1 \<Rightarrow>
          (let g2 = g1\<lparr>ticks := ticks g1 + 1\<rparr> in
           bindR (if ticks g2 \<ge> ticksPerMovement g2 then
                    bindR (SnakeMove (g2\<lparr>ticks := 0\<rparr>) (SnakeBody g2) (SnakeDirection g2)
                             True True rs)
                      (\<lambda>(g3, rs3).
                         Some (Inr (g3\<lparr>ticksPerMovement := 40 - min (score g3) 33\<rparr>, rs3)))
                  else Some (Inr (g2, rs)))
             (\<lambda>(g4, rs4). Some (RandomSnakeTongue g4 rs4))))"

text \<open>\<^verbatim>\<open>func (g *Game) UpdateGameOver() error\<close>\<close>

definition UpdateGameOver ::
  "Game \<Rightarrow> (Key \<Rightarrow> bool) \<Rightarrow> int stream \<Rightarrow> (error + (Game \<times> int stream)) option" where
  "UpdateGameOver g keys rs =
     (if keys KeySpace then ChangeState g StateGameStart rs
      else if keys KeyEscape then ChangeState g StateMainMenu rs
      else Some (Inr (g, rs)))"

text \<open>
  The loop of \<^verbatim>\<open>UpdateEndGame\<close>, from the node \<^verbatim>\<open>seg\<close> on: the first segment
  that is not a skeleton becomes one. The result is the chain and whether a segment was
  marked (the negation of \<^verbatim>\<open>finished\<close>).
\<close>

fun UpdateEndGame_loop :: "SnakeBodySegment list \<Rightarrow> error + (bool \<times> SnakeBodySegment list)" where
  "UpdateEndGame_loop [] = Inl NilDereference"
| "UpdateEndGame_loop (seg # rest) =
     (if \<not> skeleton seg then Inr (True, seg\<lparr>skeleton := True\<rparr> # rest)
      else if rest = [] then Inr (False, seg # rest)
      else
        (case UpdateEndGame_loop rest of
           Inl e \<Rightarrow> Inl e
         | Inr (marked, rest') \<Rightarrow> Inr (marked, seg # rest')))"

text \<open>\<^verbatim>\<open>func (g *Game) UpdateEndGame() error\<close>\<close>

definition UpdateEndGame ::
  "Game \<Rightarrow> int stream \<Rightarrow> (error + (Game \<times> int stream)) option" where
  "UpdateEndGame g rs =
     (let g1 = g\<lparr>skeleTicks := skeleTicks g + 1\<rparr> in
      if skeleTicks g1 \<ge> skeleTicksPerSegment g1 then
        (let g2 = g1\<lparr>skeleTicks := 0\<rparr> in
         case deref g2 (SnakeBody g2) of
           Inl e \<Rightarrow> Some (Inl e)
         | Inr b \<Rightarrow>
             (case UpdateEndGame_loop (Head b) of
                Inl e \<Rightarrow> Some (Inl e)
              | Inr (marked, chain) \<Rightarrow>
                  (let g3 = store g2 (SnakeBody g2) (b\<lparr>Head := chain\<rparr>) in
                   if \<not> marked then ChangeState g3 StateGameOver rs
                   else Some (Inr (g3, rs)))))
      else Some (Inr (g1, rs)))"

text \<open>\<^verbatim>\<open>func (g *Game) UpdateMainMenu() error\<close>\<close>

definition UpdateMainMenu ::
  "Game \<Rightarrow> (Key \<Rightarrow> bool) \<Rightarrow> int stream \<Rightarrow> (error + (Game \<times> int stream)) option" where
  "UpdateMainMenu g keys rs =
     bindR (if keys KeySpace then ChangeState g StateGameStart rs else Some (Inr (g, rs)))
       (\<lambda>(g1, rs1).
          (let g2 = g1\<lparr>ticks := ticks g1 + 1\<rparr> in
           bindR (if ticks g2 \<ge> ticksPerMovement g2 then
                    (let g3 = g2\<lparr>ticks := 0\<rparr> in
                     case head_facing g3 of
                       Inl e \<Rightarrow> Some (Inl e)
                     | Inr f \<Rightarrow>
                         bindR (RandomSnakeDirection f rs1)
                           (\<lambda>(d, rs2). SnakeMove g3 (SnakeBody g3) d False False rs2))
                  else Some (Inr (g2, rs1)))
             (\<lambda>(g4, rs4). Some (RandomSnakeTongue g4 rs4))))"

text \<open>
  \<^verbatim>\<open>func (g *Game) Update() error\<close>, called once per tick. The error of the Q key is
  the result \<open>Inl QPressed\<close>.
\<close>

definition Update ::
  "Game \<Rightarrow> (Key \<Rightarrow> bool) \<Rightarrow> int stream \<Rightarrow> (error + (Game \<times> int stream)) option" where
  "Update g keys rs =
     (if keys KeyQ then Some (Inl QPressed)
      else if state g = StateMainMenu then UpdateMainMenu g keys rs
      else if state g = StateGameStart then
        (let g1 = g\<lparr>countDownTicks := countDownTicks g + 1\<rparr>;
             g2 = (if countDownTicks g1 \<ge> 60
                   then g1\<lparr>countDownNum := countDownNum g1 - 1, countDownTicks := 0\<rparr>
                   else g1)
         in if countDownNum g2 < 0 then ChangeState g2 StateInGame rs
            else Some (Inr (g2, rs)))
      else if state g = StateInGame then UpdateInGame g keys rs
      else if state g = StateGameEnd then UpdateEndGame g rs
      else if state g = StateGameOver then UpdateGameOver g keys rs
      else Some (Inr (g, rs)))"

text \<open>
  \<^verbatim>\<open>func NewGame(width, height int) (*Game, error)\<close>, without the images and the
  title picture: \<^verbatim>\<open>InitTitleScreen\<close> builds five bodies of its own, draws them into
  an image and writes no field of the game.
\<close>

definition NewGame :: "int \<Rightarrow> int \<Rightarrow> int stream \<Rightarrow> (error + (Game \<times> int stream)) option" where
  "NewGame w h rs =
     (let g = \<lparr>state = 0, width = w, height = h, SnakeBody = None, SnakeDirection = 0,
               food = None, ticks = 0, ticksPerMovement = 0, score = 0, countDownNum = 0,
               countDownTicks = 0, skeleTicks = 0, skeleTicksPerSegment = 2,
               tongueShow = False, tongueTicks = 0, tongueTicksMin = 20,
               heap = Map.empty, heap_next = 0\<rparr>
      in bindR (Reset g rs) (\<lambda>(g1, rs1). ChangeState g1 StateMainMenu rs1))"

text \<open>
  The host calls \<^verbatim>\<open>Update\<close> once per tick: \<open>n\<close> ticks with the same keys held, stopped
  by the first error.
\<close>

fun Update_ticks ::
  "nat \<Rightarrow> (Key \<Rightarrow> bool) \<Rightarrow> Game \<Rightarrow> int stream \<Rightarrow> (error + (Game \<times> int stream)) option" where
  "Update_ticks 0 keys g rs = Some (Inr (g, rs))"
| "Update_ticks (Suc n) keys g rs =
     bindR (Update g keys rs) (\<lambda>(g', rs'). Update_ticks n keys g' rs')"

subsection \<open>A game in play\<close>

text \<open>
  A board of the size \<^verbatim>\<open>main\<close> asks for, with a snake of four segments whose tail
  lies to the right of its head.
\<close>

definition example_chain :: "SnakeBodySegment list" where
  "example_chain =
     [\<lparr>seg_x = 5, seg_y = 5, facing = UP, tile = SnakeHeadUp, skeleton = False\<rparr>,
      \<lparr>seg_x = 5, seg_y = 6, facing = LEFT, tile = SnakeBendRU, skeleton = False\<rparr>,
      \<lparr>seg_x = 6, seg_y = 6, facing = DOWN, tile = SnakeBendLU, skeleton = False\<rparr>,
      \<lparr>seg_x = 6, seg_y = 5, facing = DOWN, tile = SnakeTailDown, skeleton = False\<rparr>]"

definition example_body :: SnakeBody where
  "example_body = \<lparr>Head = example_chain, grow = False, length_field = 4\<rparr>"

definition example_game :: Game where
  "example_game =
     \<lparr>state = StateInGame, width = 27, height = 20, SnakeBody = Some 0, SnakeDirection = UP,
      food = Some \<lparr>food_x = 0, food_y = 0\<rparr>, ticks = 39, ticksPerMovement = 40, score = 0,
      countDownNum = - 1, countDownTicks = 0, skeleTicks = 0, skeleTicksPerSegment = 2,
      tongueShow = False, tongueTicks = 0, tongueTicksMin = 20,
      heap = [0 \<mapsto> example_body], heap_next = 1\<rparr>"

text \<open>
  The same game with a second body in the store, which is not the game's snake; its
  tail lies to the right of its head too.
\<close>

definition other_body :: SnakeBody where
  "other_body =
     \<lparr>Head = [\<lparr>seg_x = 10, seg_y = 10, facing = UP, tile = SnakeHeadUp, skeleton = False\<rparr>,
              \<lparr>seg_x = 10, seg_y = 11, facing = LEFT, tile = SnakeBendRU, skeleton = False\<rparr>,
              \<lparr>seg_x = 11, seg_y = 11, facing = DOWN, tile = SnakeBendLU, skeleton = False\<rparr>,
              \<lparr>seg_x = 11, seg_y = 10, facing = DOWN, tile = SnakeTailDown, skeleton = False\<rparr>],
      grow = False, length_field = 4\<rparr>"

definition two_snake_game :: Game where
  "two_snake_game = example_game\<lparr>heap := [0 \<mapsto> example_body, 1 \<mapsto> other_body], heap_next := 2\<rparr>"

text \<open>A body of one segment whose \<^verbatim>\<open>length\<close> is 1.\<close>

definition short_body :: SnakeBody where
  "short_body =
     \<lparr>Head = [\<lparr>seg_x = 5, seg_y = 5, facing = UP, tile = SnakeHeadUp, skeleton = False\<rparr>],
      grow = False, length_field = 1\<rparr>"

definition short_game :: Game where
  "short_game = example_game\<lparr>heap := [0 \<mapsto> short_body]\<rparr>"

subsection \<open>A game in the dying phase\<close>

text \<open>
  No key is held. The snake of five segments has just run into its fourth segment; no
  segment is a skeleton yet.
\<close>

definition no_keys :: "Key \<Rightarrow> bool" where
  "no_keys k = False"

definition dying_body :: SnakeBody where
  "dying_body =
     \<lparr>Head = [\<lparr>seg_x = 5, seg_y = 5, facing = UP, tile = SnakeHeadUp, skeleton = False\<rparr>,
              \<lparr>seg_x = 5, seg_y = 6, facing = LEFT, tile = SnakeBendRU, skeleton = False\<rparr>,
              \<lparr>seg_x = 6, seg_y = 6, facing = DOWN, tile = SnakeBendLU, skeleton = False\<rparr>,
              \<lparr>seg_x = 6, seg_y = 5, facing = DOWN, tile = SnakeBodyDown, skeleton = False\<rparr>,
              \<lparr>seg_x = 6, seg_y = 4, facing = DOWN, tile = SnakeTailDown, skeleton = False\<rparr>],
      grow = False, length_field = 5\<rparr>"

definition dying_game :: Game where
  "dying_game = example_game\<lparr>state := StateGameEnd, heap := [0 \<mapsto> dying_body]\<rparr>"

section \<open>Properties\<close>

lemmas state_defs =
  StateMainMenu_def StateGameStart_def StateInGame_def StateGameEnd_def StateGameOver_def

lemmas direction_defs = UP_def DOWN_def LEFT_def RIGHT_def

lemma dirs_distinct:
  "UP \<noteq> DOWN" "UP \<noteq> LEFT" "UP \<noteq> RIGHT" "DOWN \<noteq> LEFT" "DOWN \<noteq> RIGHT"
  "LEFT \<noteq> RIGHT"
  by (simp_all add: direction_defs)

subsection \<open>The store of bodies\<close>

lemma deref_store_same: "deref (store g (Some a) b) (Some a) = Inr b"
  by (simp add: deref_def store_def)

lemma deref_store_other: "q \<noteq> Some a \<Longrightarrow> deref (store g (Some a) b) q = deref g q"
  by (cases q) (auto simp: deref_def store_def)

lemma deref_SomeD: "deref g p = Inr b \<Longrightarrow> \<exists>a. p = Some a \<and> heap g a = Some b"
  by (auto simp: deref_def split: option.splits)

lemma store_store: "store (store g p b1) p b2 = store g p b2"
  by (cases p) (simp_all add: store_def)

lemma width_store [simp]: "width (store g p b) = width g"
  and height_store [simp]: "height (store g p b) = height g"
  and SnakeBody_store [simp]: "SnakeBody (store g p b) = SnakeBody g"
  and state_store [simp]: "state (store g p b) = state g"
  and score_store [simp]: "score (store g p b) = score g"
  and food_store [simp]: "food (store g p b) = food g"
  by (cases p; simp add: store_def)+

subsection \<open>The example game\<close>

lemma example_deref: "deref example_game (SnakeBody example_game) = Inr example_body"
  by (simp add: example_game_def deref_def)

lemma example_Head: "Head example_body =
     \<lparr>seg_x = 5, seg_y = 5, facing = UP, tile = SnakeHeadUp, skeleton = False\<rparr> #
     \<lparr>seg_x = 5, seg_y = 6, facing = LEFT, tile = SnakeBendRU, skeleton = False\<rparr> #
     [\<lparr>seg_x = 6, seg_y = 6, facing = DOWN, tile = SnakeBendLU, skeleton = False\<rparr>,
      \<lparr>seg_x = 6, seg_y = 5, facing = DOWN, tile = SnakeTailDown, skeleton = False\<rparr>]"
  by (simp add: example_body_def example_chain_def)

lemma example_NextPos: "SnakeGetNextPos example_game (Some 0) RIGHT = Inr (6, 5)"
  by (simp add: SnakeGetNextPos_def example_game_def deref_def example_body_def
      example_chain_def direction_defs)

lemma example_death: "SnakeCheckDeath example_game (Some 0) RIGHT = Inr True"
  by (simp add: SnakeCheckDeath_def example_NextPos)
   (simp add: example_game_def deref_def example_body_def example_chain_def)

lemma example_alive: "SnakeCheckDeath example_game (Some 0) LEFT = Inr False"
  by (simp add: SnakeCheckDeath_def SnakeGetNextPos_def example_game_def deref_def
      example_body_def example_chain_def direction_defs)

subsection \<open>Spawning\<close>

text \<open>
  C5. \<^verbatim>\<open>SpawnSnake\<close> at \<open>(x, y)\<close> always returns a pointer to a new body of length 3
  whose chain is, from the head, the segments at \<open>(x, y)\<close>, \<open>(x, y + 1)\<close> and
  \<open>(x, y + 2)\<close>, all facing up, with the tiles \<^verbatim>\<open>SnakeHeadUp\<close>, \<^verbatim>\<open>SnakeBodyUp\<close>
  and \<^verbatim>\<open>SnakeTailUp\<close>. The function has no failing branch.
\<close>

theorem SpawnSnake_three_segments:
  "fst (SpawnSnake g x y) = Some (heap_next g) \<and>
   deref (snd (SpawnSnake g x y)) (fst (SpawnSnake g x y)) =
     Inr \<lparr>Head = [\<lparr>seg_x = x, seg_y = y, facing = UP, tile = SnakeHeadUp, skeleton = False\<rparr>,
                  \<lparr>seg_x = x, seg_y = y + 1, facing = UP, tile = SnakeBodyUp, skeleton = False\<rparr>,
                  \<lparr>seg_x = x, seg_y = y + 2, facing = UP, tile = SnakeTailUp, skeleton = False\<rparr>],
          grow = False, length_field = 3\<rparr>"
  by (simp add: SpawnSnake_def deref_def Let_def)

subsection \<open>The next position and the advance\<close>

lemma SnakeGetNextPos_total:
  "deref g p = Inr b \<Longrightarrow> Head b = h # rest \<Longrightarrow> \<exists>x y. SnakeGetNextPos g p d = Inr (x, y)"
  by (simp add: SnakeGetNextPos_def Let_def)

text \<open>The next position reads the head's coordinates and the size of the board only.\<close>

lemma SnakeGetNextPos_cong:
  assumes "deref g p = Inr b" and "Head b = h # rest"
    and "deref g' p = Inr b'" and "Head b' = h' # rest'"
    and "seg_x h' = seg_x h" and "seg_y h' = seg_y h"
    and "width g' = width g" and "height g' = height g"
  shows "SnakeGetNextPos g' p d = SnakeGetNextPos g p d"
proof (cases "d = UP \<or> d = DOWN \<or> d = LEFT \<or> d = RIGHT")
  case True
  with assms show ?thesis
    by (simp add: SnakeGetNextPos_def Let_def split del: if_split cong: if_cong)
next
  case False
  with assms show ?thesis
    by (simp add: SnakeGetNextPos_def split del: if_split)
qed

text \<open>
  For a head on the board the next position is one step in the direction \<open>d\<close>, taken
  modulo the size of the board: leaving the board on one side enters it on the other.
\<close>

lemma SnakeGetNextPos_in_grid:
  assumes "deref g p = Inr b" and "Head b = h # rest"
    and "0 \<le> seg_x h" and "seg_x h < width g" and "0 \<le> seg_y h" and "seg_y h < height g"
  shows "SnakeGetNextPos g p UP = Inr (seg_x h, (seg_y h - 1) mod height g)"
    and "SnakeGetNextPos g p DOWN = Inr (seg_x h, (seg_y h + 1) mod height g)"
    and "SnakeGetNextPos g p LEFT = Inr ((seg_x h - 1) mod width g, seg_y h)"
    and "SnakeGetNextPos g p RIGHT = Inr ((seg_x h + 1) mod width g, seg_y h)"
proof -
  have dec: "(v - 1) mod n = (if v = 0 then n - 1 else v - 1)" if "0 \<le> v" "v < n" for v n :: int
    using that by (auto simp: zmod_minus1 mod_pos_pos_trivial)
  have inc: "(v + 1) mod n = (if v = n - 1 then 0 else v + 1)" if "0 \<le> v" "v < n" for v n :: int
    using that by (auto simp: mod_pos_pos_trivial)
  show "SnakeGetNextPos g p UP = Inr (seg_x h, (seg_y h - 1) mod height g)"
    using assms by (auto simp: SnakeGetNextPos_def dirs_distinct dirs_distinct [symmetric] dec Let_def)
  show "SnakeGetNextPos g p DOWN = Inr (seg_x h, (seg_y h + 1) mod height g)"
    using assms by (auto simp: SnakeGetNextPos_def dirs_distinct dirs_distinct [symmetric] inc Let_def)
  show "SnakeGetNextPos g p LEFT = Inr ((seg_x h - 1) mod width g, seg_y h)"
    using assms by (auto simp: SnakeGetNextPos_def dirs_distinct dirs_distinct [symmetric] dec Let_def)
  show "SnakeGetNextPos g p RIGHT = Inr ((seg_x h + 1) mod width g, seg_y h)"
    using assms by (auto simp: SnakeGetNextPos_def dirs_distinct dirs_distinct [symmetric] inc Let_def)
qed


lemma SnakeAdvance_tiles_Cons:
  "\<exists>t t'. SnakeAdvance_tiles d (h # rest) = Inr (t, h\<lparr>tile := t'\<rparr> # rest)"
proof -
  consider "d = UP" | "d \<noteq> UP" "d = DOWN" | "d \<noteq> UP" "d \<noteq> DOWN" "d = LEFT"
    | "d \<noteq> UP" "d \<noteq> DOWN" "d \<noteq> LEFT" "d = RIGHT"
    | "d \<noteq> UP" "d \<noteq> DOWN" "d \<noteq> LEFT" "d \<noteq> RIGHT"
    by blast
  then show ?thesis
  proof cases
    case 1
    then show ?thesis
      by (simp add: SnakeAdvance_tiles_def split del: if_split) blast
  next
    case 2
    then show ?thesis
      by (simp add: SnakeAdvance_tiles_def split del: if_split) blast
  next
    case 3
    then show ?thesis
      by (simp add: SnakeAdvance_tiles_def split del: if_split) blast
  next
    case 4
    then show ?thesis
      by (simp add: SnakeAdvance_tiles_def split del: if_split) blast
  next
    case 5
    then show ?thesis
      by (simp add: SnakeAdvance_tiles_def split del: if_split) (rule exI [of _ "tile h"], simp)
  qed
qed

text \<open>
  An advance of a body with a head puts one new segment, at the next position and facing
  \<open>d\<close>, in front of the chain; of the old chain only the tile of the old head may change.
\<close>

lemma SnakeAdvance_result:
  assumes "deref g p = Inr b" and "Head b = h # rest" and "SnakeGetNextPos g p d = Inr (x, y)"
  shows "\<exists>t t'. SnakeAdvance g p d =
           Inr (store g p
             (b\<lparr>Head := \<lparr>seg_x = x, seg_y = y, facing = d, tile = t, skeleton = False\<rparr>
                          # h\<lparr>tile := t'\<rparr> # rest,
                length_field := length_field b + 1\<rparr>))"
proof -
  obtain t t' where tl: "SnakeAdvance_tiles d (h # rest) = Inr (t, h\<lparr>tile := t'\<rparr> # rest)"
    using SnakeAdvance_tiles_Cons by blast
  obtain a where a: "p = Some a"
    using deref_SomeD [OF assms(1)] by blast
  have "SnakeGetNextPos (store g p (b\<lparr>Head := h\<lparr>tile := t'\<rparr> # rest\<rparr>)) p d = Inr (x, y)"
    using SnakeGetNextPos_cong [OF assms(1,2), of "store g p (b\<lparr>Head := h\<lparr>tile := t'\<rparr> # rest\<rparr>)"
        "b\<lparr>Head := h\<lparr>tile := t'\<rparr> # rest\<rparr>" "h\<lparr>tile := t'\<rparr>" rest d] assms(3) a
    by (simp add: deref_store_same)
  with tl assms(1,2) show ?thesis
    by (simp add: SnakeAdvance_def store_store) blast
qed

subsection \<open>The look-ahead collision check\<close>

lemma SnakeCheckDeath_loop_iff:
  "rest \<noteq> [] \<Longrightarrow>
   SnakeCheckDeath_loop x y rest = Inr (\<exists>seg\<in>set rest. seg_x seg = x \<and> seg_y seg = y)"
  by (induction rest) auto

lemma SnakeCheckDeath_scan:
  assumes "SnakeGetNextPos g p d = Inr (x, y)"
    and "deref g (SnakeBody g) = Inr gb" and "Head gb = gh # gs # grest"
  shows "SnakeCheckDeath g p d = Inr (\<exists>seg\<in>set (gs # grest). seg_x seg = x \<and> seg_y seg = y)"
proof -
  have "SnakeCheckDeath g p d = SnakeCheckDeath_loop x y (gs # grest)"
    using assms by (simp add: SnakeCheckDeath_def)
  also have "\<dots> = Inr (\<exists>seg\<in>set (gs # grest). seg_x seg = x \<and> seg_y seg = y)"
    by (rule SnakeCheckDeath_loop_iff) simp
  finally show ?thesis .
qed

text \<open>
  C1. In play the check is called with the game's own snake. For a snake of at least two
  segments the advance in direction \<open>d\<close> succeeds and puts the new head \<open>h'\<close> on the wrapped
  next cell (the result of \<^verbatim>\<open>SnakeGetNextPos\<close>), and \<^verbatim>\<open>SnakeCheckDeath\<close>, evaluated
  on the body before the move, returns true exactly when a segment other than the current
  head lies on the cell of \<open>h'\<close>. The current tail is one of these segments: when it lies
  on that cell the result is true.
\<close>

theorem SnakeCheckDeath_iff_next_cell_occupied:
  assumes "deref g (SnakeBody g) = Inr b" and "Head b = h # s # rest"
  shows "\<exists>g' b' h' chain'.
           SnakeAdvance g (SnakeBody g) d = Inr g' \<and>
           deref g' (SnakeBody g') = Inr b' \<and> Head b' = h' # chain' \<and>
           SnakeGetNextPos g (SnakeBody g) d = Inr (seg_x h', seg_y h') \<and>
           SnakeCheckDeath g (SnakeBody g) d =
             Inr (\<exists>seg\<in>set (s # rest). seg_x seg = seg_x h' \<and> seg_y seg = seg_y h') \<and>
           (seg_x (last (h # s # rest)) = seg_x h' \<and> seg_y (last (h # s # rest)) = seg_y h'
              \<longrightarrow> SnakeCheckDeath g (SnakeBody g) d = Inr True)"
proof -
  obtain x y where pos: "SnakeGetNextPos g (SnakeBody g) d = Inr (x, y)"
    using SnakeGetNextPos_total [OF assms] by blast
  obtain a where a: "SnakeBody g = Some a"
    using deref_SomeD [OF assms(1)] by blast
  define h' where "h' = (\<lambda>t. \<lparr>seg_x = x, seg_y = y, facing = d, tile = t, skeleton = False\<rparr>)"
  obtain t t' where adv: "SnakeAdvance g (SnakeBody g) d =
      Inr (store g (SnakeBody g)
        (b\<lparr>Head := h' t # h\<lparr>tile := t'\<rparr> # s # rest,
           length_field := length_field b + 1\<rparr>))"
    using SnakeAdvance_result [OF assms pos] unfolding h'_def by blast
  let ?b' = "b\<lparr>Head := h' t # h\<lparr>tile := t'\<rparr> # s # rest, length_field := length_field b + 1\<rparr>"
  let ?g' = "store g (SnakeBody g) ?b'"
  have chk: "SnakeCheckDeath g (SnakeBody g) d =
      Inr (\<exists>seg\<in>set (s # rest). seg_x seg = seg_x (h' t) \<and> seg_y seg = seg_y (h' t))"
    using SnakeCheckDeath_scan [OF pos assms] by (simp add: h'_def)
  have tail: "last (h # s # rest) \<in> set (s # rest)"
    by (metis last.simps last_in_set list.distinct(1))
  have d': "deref ?g' (SnakeBody ?g') = Inr ?b'"
    using a by (simp add: deref_store_same)
  have hd': "Head ?b' = h' t # h\<lparr>tile := t'\<rparr> # s # rest"
    by simp
  have imp: "seg_x (last (h # s # rest)) = seg_x (h' t) \<and> seg_y (last (h # s # rest)) = seg_y (h' t)
              \<longrightarrow> SnakeCheckDeath g (SnakeBody g) d = Inr True"
    using tail unfolding chk by blast
  have pos': "SnakeGetNextPos g (SnakeBody g) d = Inr (seg_x (h' t), seg_y (h' t))"
    using pos by (simp add: h'_def)
  show ?thesis
    using adv d' hd' pos' chk imp by blast
qed

text \<open>
  In the example the head at \<open>(5, 5)\<close> turns right onto \<open>(6, 5)\<close>, the cell of the tail.
\<close>

theorem SnakeCheckDeath_iff_next_cell_occupied_witness:
  "deref example_game (SnakeBody example_game) = Inr example_body \<and>
   SnakeCheckDeath example_game (SnakeBody example_game) RIGHT = Inr True \<and>
   (\<exists>g' b' h' chain'.
      SnakeAdvance example_game (SnakeBody example_game) RIGHT = Inr g' \<and>
      deref g' (SnakeBody g') = Inr b' \<and> Head b' = h' # chain' \<and>
      SnakeGetNextPos example_game (SnakeBody example_game) RIGHT = Inr (seg_x h', seg_y h') \<and>
      SnakeCheckDeath example_game (SnakeBody example_game) RIGHT =
        Inr (\<exists>seg\<in>set (tl example_chain). seg_x seg = seg_x h' \<and> seg_y seg = seg_y h') \<and>
      (seg_x (last example_chain) = seg_x h' \<and> seg_y (last example_chain) = seg_y h'
         \<longrightarrow> SnakeCheckDeath example_game (SnakeBody example_game) RIGHT = Inr True))"
proof -
  have sb: "SnakeBody example_game = Some 0"
    by (simp add: example_game_def)
  from SnakeCheckDeath_iff_next_cell_occupied [OF example_deref example_Head, of RIGHT]
    example_deref example_death sb
  show ?thesis
    by (simp add: example_chain_def)
qed

text \<open>
  C10. For any body argument with a head, \<^verbatim>\<open>SnakeCheckDeath\<close> takes the next position
  from the argument and looks for it among the segments after the head of the game's
  active snake. When the argument is another body than the active snake, replacing the
  argument's own segments after its head does not change the result.
\<close>

theorem SnakeCheckDeath_scans_active_snake:
  assumes "deref g p = Inr b" and "Head b = h # rest"
    and "deref g (SnakeBody g) = Inr gb" and "Head gb = gh # gs # grest"
  shows "\<exists>x y. SnakeGetNextPos g p d = Inr (x, y) \<and>
           SnakeCheckDeath g p d =
             Inr (\<exists>seg\<in>set (gs # grest). seg_x seg = x \<and> seg_y seg = y) \<and>
           (p \<noteq> SnakeBody g \<longrightarrow>
              (\<forall>rest'. SnakeCheckDeath (store g p (b\<lparr>Head := h # rest'\<rparr>)) p d =
                        SnakeCheckDeath g p d))"
proof -
  obtain x y where pos: "SnakeGetNextPos g p d = Inr (x, y)"
    using SnakeGetNextPos_total [OF assms(1,2)] by blast
  obtain a where a: "p = Some a"
    using deref_SomeD [OF assms(1)] by blast
  have chk: "SnakeCheckDeath g p d =
      Inr (\<exists>seg\<in>set (gs # grest). seg_x seg = x \<and> seg_y seg = y)"
    by (rule SnakeCheckDeath_scan [OF pos assms(3,4)])
  have other: "SnakeCheckDeath (store g p (b\<lparr>Head := h # rest'\<rparr>)) p d = SnakeCheckDeath g p d"
    if ne: "p \<noteq> SnakeBody g" for rest'
  proof -
    let ?g' = "store g p (b\<lparr>Head := h # rest'\<rparr>)"
    have "deref ?g' p = Inr (b\<lparr>Head := h # rest'\<rparr>)"
      using a by (simp add: deref_store_same)
    then have "SnakeGetNextPos ?g' p d = SnakeGetNextPos g p d"
      using SnakeGetNextPos_cong [OF assms(1,2), of ?g' "b\<lparr>Head := h # rest'\<rparr>" h rest' d]
      by simp
    then have pos': "SnakeGetNextPos ?g' p d = Inr (x, y)"
      using pos by simp
    have "deref ?g' (SnakeBody ?g') = Inr gb"
      using a ne assms(3) deref_store_other [of "SnakeBody g" a g] by simp
    from SnakeCheckDeath_scan [OF pos' this assms(4)] chk show ?thesis
      by simp
  qed
  from pos chk other show ?thesis
    by blast
qed

text \<open>
  In the example with two bodies the second body would run into its own tail, which the
  check does not see: the result is false, as it is when the second body is cut down to
  its head.
\<close>

theorem SnakeCheckDeath_scans_active_snake_witness:
  "deref two_snake_game (Some 1) = Inr other_body \<and>
   deref two_snake_game (SnakeBody two_snake_game) = Inr example_body \<and>
   Some 1 \<noteq> SnakeBody two_snake_game \<and>
   SnakeGetNextPos two_snake_game (Some 1) RIGHT = Inr (11, 10) \<and>
   seg_x (last (Head other_body)) = 11 \<and> seg_y (last (Head other_body)) = 10 \<and>
   SnakeCheckDeath two_snake_game (Some 1) RIGHT = Inr False \<and>
   SnakeCheckDeath
     (store two_snake_game (Some 1) (other_body\<lparr>Head := [hd (Head other_body)]\<rparr>))
     (Some 1) RIGHT = Inr False"
proof -
  have d1: "deref two_snake_game (Some 1) = Inr other_body"
    by (simp add: two_snake_game_def deref_def)
  have h1: "Head other_body = hd (Head other_body) # tl (Head other_body)"
    by (simp add: other_body_def)
  have d0: "deref two_snake_game (SnakeBody two_snake_game) = Inr example_body"
    by (simp add: two_snake_game_def example_game_def deref_def)
  have ne: "Some 1 \<noteq> SnakeBody two_snake_game"
    by (simp add: two_snake_game_def example_game_def)
  have pos: "SnakeGetNextPos two_snake_game (Some 1) RIGHT = Inr (11, 10)"
    by (simp add: SnakeGetNextPos_def two_snake_game_def example_game_def deref_def
        other_body_def direction_defs)
  have tail: "seg_x (last (Head other_body)) = 11" "seg_y (last (Head other_body)) = 10"
    by (simp_all add: other_body_def)
  from SnakeCheckDeath_scans_active_snake [OF d1 h1 d0 example_Head, of RIGHT] pos ne
  have chk: "SnakeCheckDeath two_snake_game (Some 1) RIGHT = Inr False"
    and same: "SnakeCheckDeath
       (store two_snake_game (Some 1) (other_body\<lparr>Head := hd (Head other_body) # []\<rparr>))
       (Some 1) RIGHT = SnakeCheckDeath two_snake_game (Some 1) RIGHT"
    by auto
  from d1 d0 ne pos tail chk same show ?thesis
    by simp
qed


subsection \<open>One move\<close>

text \<open>
  C2. When \<^verbatim>\<open>SnakeMove\<close> is called with \<^verbatim>\<open>checkDeath\<close> true and the collision check
  returns true, the call returns the game it was given with only \<^verbatim>\<open>state\<close> changed,
  to \<^verbatim>\<open>StateGameEnd\<close>: the store of bodies (segments, tiles, length, grow flag), the
  score and the food are those of before, and no random number is drawn.
\<close>

theorem SnakeMove_collision_only_changes_state:
  assumes "SnakeCheckDeath g p d = Inr True"
  shows "SnakeMove g p d True checkFood rs = Some (Inr (g\<lparr>state := StateGameEnd\<rparr>, rs))"
  using assms by (simp add: SnakeMove_def ChangeState_def state_defs)

theorem SnakeMove_collision_only_changes_state_witness:
  "SnakeCheckDeath example_game (Some 0) RIGHT = Inr True \<and>
   SnakeMove example_game (Some 0) RIGHT True True (sconst 0) =
     Some (Inr (example_game\<lparr>state := StateGameEnd\<rparr>, sconst 0))"
  using SnakeMove_collision_only_changes_state [OF example_death] example_death by simp

subsection \<open>Removing the tail\<close>

text \<open>
  The loop walks from node \<open>k\<close> as many steps as \<open>i\<close> is below \<open>n - 1\<close>, provided the
  chain is long enough.
\<close>

lemma SnakeRemoveTail_loop_walk:
  "k + nat (n - 1 - i) < length chain \<Longrightarrow>
   SnakeRemoveTail_loop chain n i prevSeg (Some k) =
     Inr (if i < n - 1 then Some (k + nat (n - 1 - i) - 1) else prevSeg,
          Some (k + nat (n - 1 - i)))"
proof (induction "nat (n - 1 - i)" arbitrary: i k prevSeg)
  case 0
  then show ?case by simp
next
  case (Suc m)
  then have lt: "i < n - 1" and m: "m = nat (n - 1 - (i + 1))"
    by linarith+
  have nxt: "node_next chain k = Some (Suc k)"
    using Suc.prems Suc.hyps(2) by (simp add: node_next_def)
  have "Suc k + nat (n - 1 - (i + 1)) < length chain"
    using Suc.prems Suc.hyps(2) m by linarith
  from Suc.hyps(1) [OF m this, of "Some k"] lt nxt Suc.hyps(2) m
  show ?case
    by (subst SnakeRemoveTail_loop.simps) (auto simp del: SnakeRemoveTail_loop.simps)
qed


lemma SnakeRemoveTail_result:
  assumes "deref g p = Inr b" and "nat (length_field b - 2) < length (Head b)"
  shows "SnakeRemoveTail g p =
           Inr (store g p
             (b\<lparr>Head := (take (Suc (nat (length_field b - 2))) (Head b))
                  [nat (length_field b - 2) :=
                     (Head b ! nat (length_field b - 2))
                       \<lparr>tile := SnakeRemoveTail_tile (Head b ! nat (length_field b - 3))
                                  (Head b ! nat (length_field b - 2))\<rparr>],
                length_field := length_field b - 1\<rparr>))"
proof -
  let ?n = "length_field b" and ?chain = "Head b"
  have ne: "?chain \<noteq> []"
    using assms(2) by auto
  have "0 + nat (?n - 1 - 1) < length ?chain"
    using assms(2) by (simp add: algebra_simps)
  from SnakeRemoveTail_loop_walk [OF this, of "Some 0"]
  have loop: "SnakeRemoveTail_loop ?chain ?n 1 (node_head ?chain) (node_head ?chain) =
      Inr (Some (nat (?n - 3)), Some (nat (?n - 2)))"
    using ne by (auto simp: node_head_def nat_diff_distrib algebra_simps simp del: SnakeRemoveTail_loop.simps)
  have "nat (?n - 3) \<le> nat (?n - 2)"
    by simp
  then have "take (Suc (nat (?n - 2))) ?chain ! nat (?n - 3) = ?chain ! nat (?n - 3)"
    and "take (Suc (nat (?n - 2))) ?chain ! nat (?n - 2) = ?chain ! nat (?n - 2)"
    by simp_all
  with loop assms(1) show ?thesis
    by (simp add: SnakeRemoveTail_def Let_def del: SnakeRemoveTail_loop.simps)
qed


lemma SnakeRemoveTail_tile_same: "SnakeRemoveTail_tile h h = tile h"
  by (simp add: SnakeRemoveTail_tile_def)

text \<open>
  C8, as the code has it. \<^verbatim>\<open>SnakeRemoveTail\<close> has no check of the length. For a body
  whose \<^verbatim>\<open>length\<close> is at most 1 the loop does not run: if the body has a head, the call
  returns normally, having cut the chain after the head and decremented \<^verbatim>\<open>length\<close>
  (to 0 or below), the head's tile unchanged; it panics, by a nil dereference, only when
  \<^verbatim>\<open>Head\<close> is nil.
\<close>

theorem SnakeRemoveTail_short_body:
  assumes "deref g p = Inr b" and "length_field b \<le> 1"
  shows "SnakeRemoveTail g p =
           (case Head b of
              [] \<Rightarrow> Inl NilDereference
            | h # rest \<Rightarrow> Inr (store g p (b\<lparr>Head := [h], length_field := length_field b - 1\<rparr>)))"
proof (cases "Head b")
  case Nil
  with assms show ?thesis
    by (simp add: SnakeRemoveTail_def node_head_def)
next
  case (Cons h rest)
  have k: "nat (length_field b - 2) = 0" "nat (length_field b - 3) = 0"
    using assms(2) by simp_all
  have "nat (length_field b - 2) < length (Head b)"
    using Cons k by simp
  from SnakeRemoveTail_result [OF assms(1) this] Cons show ?thesis
    by (simp add: k SnakeRemoveTail_tile_same)
qed

text \<open>
  The claim as stated fails: on a body of one segment and length 1 the call returns a
  game, in which the length of the body is 0.
\<close>

theorem SnakeRemoveTail_short_body_counterexample:
  "length_field short_body \<le> 1 \<and>
   SnakeRemoveTail short_game (Some 0) =
     Inr (short_game\<lparr>heap := [0 \<mapsto> short_body\<lparr>length_field := 0\<rparr>]\<rparr>)"
  by (simp add: SnakeRemoveTail_def short_game_def short_body_def example_game_def deref_def
      store_def node_head_def SnakeRemoveTail_tile_def Let_def)

theorem SnakeRemoveTail_short_body_witness:
  "deref short_game (Some 0) = Inr short_body \<and> length_field short_body \<le> 1 \<and>
   SnakeRemoveTail short_game (Some 0) =
     Inr (store short_game (Some 0) (short_body\<lparr>length_field := 0\<rparr>))"
proof -
  have d: "deref short_game (Some 0) = Inr short_body"
    by (simp add: short_game_def deref_def)
  have l: "length_field short_body \<le> 1"
    by (simp add: short_body_def)
  from SnakeRemoveTail_short_body [OF d l] d l show ?thesis
    by (simp add: short_body_def)
qed


subsection \<open>The length of the body over one move\<close>

lemma SpawnFood_only_food:
  "SpawnFood g rs = Some (Inr (g', rs')) \<Longrightarrow> \<exists>f. g' = g\<lparr>food := Some f\<rparr>"
  by (auto simp: SpawnFood_def bindR_def split: option.splits sum.splits)

lemma deref_food_update [simp]: "deref (g\<lparr>food := f\<rparr>) p = deref g p"
  and deref_score_update [simp]: "deref (g\<lparr>score := n\<rparr>) p = deref g p"
  and deref_state_update [simp]: "deref (g\<lparr>state := s\<rparr>) p = deref g p"
  by (cases p; simp add: deref_def)+

lemma deref_store: "deref g p = Inr b \<Longrightarrow> deref (store g p b') p = Inr b'"
  by (auto dest!: deref_SomeD simp: deref_store_same)

lemma SnakeBody_update_swap:
  "(b::SnakeBody)\<lparr>length_field := n, grow := v\<rparr> = b\<lparr>grow := v, length_field := n\<rparr>"
  by (cases b) simp

text \<open>The part of a move before the food check, for a body that does not collide.\<close>

lemma SnakeMove_without_food:
  assumes d: "deref g p = Inr b" and wf: "length_field b = int (length (Head b))"
    and len: "3 \<le> length_field b"
    and nc: "checkDeath \<longrightarrow> SnakeCheckDeath g p d = Inr False"
  shows "\<exists>chain'. chain' \<noteq> [] \<and>
           int (length chain') = (if grow b then length_field b + 1 else length_field b) \<and>
           SnakeMove g p d checkDeath False rs =
             Some (Inr (store g p (b\<lparr>Head := chain', grow := False,
                     length_field := (if grow b then length_field b + 1 else length_field b)\<rparr>), rs)) \<and>
           (if grow b
            then SnakeAdvance g p d =
                   Inr (store g p (b\<lparr>Head := chain', length_field := length_field b + 1\<rparr>))
            else (\<exists>g1. SnakeRemoveTail g p = Inr g1 \<and>
                    SnakeAdvance g1 p d =
                      Inr (store g p (b\<lparr>Head := chain', grow := False,
                             length_field := length_field b\<rparr>))))"
proof -
  obtain a where a: "p = Some a"
    using deref_SomeD [OF d] by blast
  have chk: "(if checkDeath then SnakeCheckDeath g p d else Inr False) = Inr False"
    using nc by simp
  show ?thesis
  proof (cases "grow b")
    case True
    obtain h rest where hr: "Head b = h # rest"
      using wf len by (cases "Head b") auto
    obtain x y where pos: "SnakeGetNextPos g p d = Inr (x, y)"
      using SnakeGetNextPos_total [OF d hr] by blast
    obtain t t' where adv: "SnakeAdvance g p d =
        Inr (store g p
          (b\<lparr>Head := \<lparr>seg_x = x, seg_y = y, facing = d, tile = t, skeleton = False\<rparr>
                       # h\<lparr>tile := t'\<rparr> # rest,
             length_field := length_field b + 1\<rparr>))"
      using SnakeAdvance_result [OF d hr pos] by blast
    let ?chain' = "\<lparr>seg_x = x, seg_y = y, facing = d, tile = t, skeleton = False\<rparr>
                       # h\<lparr>tile := t'\<rparr> # rest"
    have mv: "SnakeMove g p d checkDeath False rs =
        Some (Inr (store g p (b\<lparr>Head := ?chain', grow := False,
                     length_field := length_field b + 1\<rparr>), rs))"
      using True d adv chk deref_store [OF d]
      by (simp add: SnakeMove_def store_store SnakeBody_update_swap)
    have "int (length ?chain') = length_field b + 1"
      using wf hr by simp
    with mv adv True show ?thesis
      by (intro exI [of _ ?chain']) auto
  next
    case False
    let ?k = "nat (length_field b - 2)"
    have k: "?k < length (Head b)"
      using wf len by linarith
    define chain1 where "chain1 = (take (Suc ?k) (Head b))
                  [?k := (Head b ! ?k)
                       \<lparr>tile := SnakeRemoveTail_tile (Head b ! nat (length_field b - 3))
                                  (Head b ! ?k)\<rparr>]"
    let ?b1 = "b\<lparr>Head := chain1, length_field := length_field b - 1\<rparr>"
    have rt: "SnakeRemoveTail g p = Inr (store g p ?b1)"
      using SnakeRemoveTail_result [OF d k] by (simp add: chain1_def)
    have l1: "int (length chain1) = length_field b - 1"
      using wf len k by (simp add: chain1_def min_def)
    then obtain h1 rest1 where hr: "chain1 = h1 # rest1"
      using len by (cases chain1) auto
    have d1: "deref (store g p ?b1) p = Inr ?b1"
      using a by (simp add: deref_store_same)
    have hr1: "Head ?b1 = h1 # rest1"
      using hr by simp
    obtain x y where pos: "SnakeGetNextPos (store g p ?b1) p d = Inr (x, y)"
      using SnakeGetNextPos_total [OF d1 hr1] by blast
    obtain t t' where adv0: "SnakeAdvance (store g p ?b1) p d =
        Inr (store (store g p ?b1) p
          (?b1\<lparr>Head := \<lparr>seg_x = x, seg_y = y, facing = d, tile = t, skeleton = False\<rparr>
                       # h1\<lparr>tile := t'\<rparr> # rest1,
             length_field := length_field ?b1 + 1\<rparr>))"
      using SnakeAdvance_result [OF d1 hr1 pos] by blast
    let ?chain' = "\<lparr>seg_x = x, seg_y = y, facing = d, tile = t, skeleton = False\<rparr>
                       # h1\<lparr>tile := t'\<rparr> # rest1"
    have beq: "?b1\<lparr>Head := ?chain', length_field := length_field ?b1 + 1\<rparr> =
               b\<lparr>Head := ?chain', grow := False, length_field := length_field b\<rparr>"
      using False by simp
    have adv: "SnakeAdvance (store g p ?b1) p d =
        Inr (store g p (b\<lparr>Head := ?chain', grow := False, length_field := length_field b\<rparr>))"
      using adv0 unfolding beq store_store .
    have mv: "SnakeMove g p d checkDeath False rs =
        Some (Inr (store g p (b\<lparr>Head := ?chain', grow := False,
                     length_field := length_field b\<rparr>), rs))"
      using False d rt adv chk by (simp add: SnakeMove_def)
    have "int (length ?chain') = length_field b"
      using l1 hr by simp
    with mv rt adv False show ?thesis
      by (intro exI [of _ ?chain']) auto
  qed
qed


text \<open>The food check of a move that does not collide, after its first part.\<close>

lemma SnakeMove_food_step:
  assumes nc: "checkDeath \<longrightarrow> SnakeCheckDeath g p d = Inr False"
    and mv: "SnakeMove g p d checkDeath False rs = Some (Inr (g2, rs2))"
  shows "SnakeMove g p d checkDeath True rs =
           (case SnakeCheckFood g2 p of
              Inl e \<Rightarrow> Some (Inl e)
            | Inr (True, g3) \<Rightarrow>
                (case deref g3 p of
                   Inl e \<Rightarrow> Some (Inl e)
                 | Inr b3 \<Rightarrow> SpawnFood (store g3 p (b3\<lparr>grow := True\<rparr>)) rs)
            | Inr (False, g3) \<Rightarrow> Some (Inr (g3, rs)))"
proof -
  have chk: "(if checkDeath then SnakeCheckDeath g p d else Inr False) = Inr False"
    using nc by simp
  obtain b where d: "deref g p = Inr b"
    using mv unfolding SnakeMove_def chk by (cases "deref g p") simp_all
  define body where "body =
    (if \<not> grow b then
       (case SnakeRemoveTail g p of Inl e \<Rightarrow> Inl e | Inr g1 \<Rightarrow> SnakeAdvance g1 p d)
     else
       (case SnakeAdvance g p d of
          Inl e \<Rightarrow> Inl e
        | Inr g1 \<Rightarrow>
            (case deref g1 p of
               Inl e \<Rightarrow> Inl e
             | Inr b1 \<Rightarrow> Inr (store g1 p (b1\<lparr>grow := False\<rparr>)))))"
  have eq: "SnakeMove g p d checkDeath cf rs =
      (case body of
         Inl e \<Rightarrow> Some (Inl e)
       | Inr g2 \<Rightarrow>
           if cf then
             (case SnakeCheckFood g2 p of
                Inl e \<Rightarrow> Some (Inl e)
              | Inr (True, g3) \<Rightarrow>
                  (case deref g3 p of
                     Inl e \<Rightarrow> Some (Inl e)
                   | Inr b3 \<Rightarrow> SpawnFood (store g3 p (b3\<lparr>grow := True\<rparr>)) rs)
              | Inr (False, g3) \<Rightarrow> Some (Inr (g3, rs)))
           else Some (Inr (g2, rs)))" for cf
    unfolding SnakeMove_def chk body_def by (simp only: d sum.case bool.case)
  have body: "body = Inr g2"
    using mv unfolding eq [of False] by (cases body) simp_all
  show ?thesis
    unfolding eq [of True] body by simp
qed

lemma SnakeCheckFood_body:
  assumes "deref g p = Inr b" and "SnakeCheckFood g p = Inr (eaten, g')"
  shows "deref g' p = Inr (if eaten then b\<lparr>grow := True\<rparr> else b)"
  using assms deref_store [OF assms(1)]
  by (auto simp: SnakeCheckFood_def deref_def store_def split: list.splits option.splits if_splits)


lemma SnakeMove_food_keeps_chain:
  assumes nc: "checkDeath \<longrightarrow> SnakeCheckDeath g p d = Inr False"
    and mv: "SnakeMove g p d checkDeath False rs = Some (Inr (g2, rs2))"
    and d2: "deref g2 p = Inr b2"
    and mvf: "SnakeMove g p d checkDeath True rs = Some (Inr (g3, rs3))"
  shows "\<exists>v. deref g3 p = Inr (b2\<lparr>grow := v\<rparr>)"
proof -
  note step = mvf [unfolded SnakeMove_food_step [OF nc mv]]
  obtain eaten g' where cf: "SnakeCheckFood g2 p = Inr (eaten, g')"
    using step by (cases "SnakeCheckFood g2 p") auto
  note d' = SnakeCheckFood_body [OF d2 cf]
  show ?thesis
  proof (cases eaten)
    case True
    with d' have dt: "deref g' p = Inr (b2\<lparr>grow := True\<rparr>)"
      by simp
    with step cf True
    have "SpawnFood (store g' p (b2\<lparr>grow := True\<rparr>)) rs = Some (Inr (g3, rs3))"
      by simp
    then obtain f where "g3 = (store g' p (b2\<lparr>grow := True\<rparr>))\<lparr>food := Some f\<rparr>"
      using SpawnFood_only_food by blast
    then have "deref g3 p = Inr (b2\<lparr>grow := True\<rparr>)"
      using deref_store [OF dt] by simp
    then show ?thesis
      by blast
  next
    case False
    with step cf have "g3 = g'"
      by simp
    with d' False have "deref g3 p = Inr (b2\<lparr>grow := grow b2\<rparr>)"
      by simp
    then show ?thesis
      by blast
  qed
qed

text \<open>
  C3. Let the body have \<^verbatim>\<open>length\<close> at least 3, equal to the number of its segments, and
  let the move not collide (no death check, or the check returns false). Without the food
  check the call returns, the flag \<^verbatim>\<open>grow\<close> is false at its end, and
  \<^item> if \<^verbatim>\<open>grow\<close> was false the result is that of \<^verbatim>\<open>SnakeRemoveTail\<close> followed by
    \<^verbatim>\<open>SnakeAdvance\<close>, and \<^verbatim>\<open>length\<close> is unchanged;
  \<^item> if \<^verbatim>\<open>grow\<close> was true the result is that of \<^verbatim>\<open>SnakeAdvance\<close> alone with the
    flag cleared, and \<^verbatim>\<open>length\<close> is one more.
  In both cases \<^verbatim>\<open>length\<close> is again the number of segments. The food check that may
  follow changes neither the chain nor \<^verbatim>\<open>length\<close>.
\<close>

theorem SnakeMove_length:
  assumes d: "deref g p = Inr b" and wf: "length_field b = int (length (Head b))"
    and len: "3 \<le> length_field b"
    and nc: "checkDeath \<longrightarrow> SnakeCheckDeath g p d = Inr False"
  shows "\<exists>g2 b2.
           SnakeMove g p d checkDeath False rs = Some (Inr (g2, rs)) \<and>
           deref g2 p = Inr b2 \<and> \<not> grow b2 \<and>
           length_field b2 = (if grow b then length_field b + 1 else length_field b) \<and>
           length_field b2 = int (length (Head b2)) \<and>
           (if grow b
            then (\<exists>g1 b1. SnakeAdvance g p d = Inr g1 \<and> deref g1 p = Inr b1 \<and>
                    g2 = store g1 p (b1\<lparr>grow := False\<rparr>))
            else (\<exists>g1. SnakeRemoveTail g p = Inr g1 \<and> SnakeAdvance g1 p d = Inr g2)) \<and>
           (\<forall>g3 rs3. SnakeMove g p d checkDeath True rs = Some (Inr (g3, rs3)) \<longrightarrow>
              (\<exists>b3. deref g3 p = Inr b3 \<and> Head b3 = Head b2 \<and>
                 length_field b3 = length_field b2))"
proof -
  let ?n = "if grow b then length_field b + 1 else length_field b"
  obtain chain' where ne: "chain' \<noteq> []" and l: "int (length chain') = ?n"
    and mv: "SnakeMove g p d checkDeath False rs =
      Some (Inr (store g p (b\<lparr>Head := chain', grow := False, length_field := ?n\<rparr>), rs))"
    and how: "if grow b
       then SnakeAdvance g p d =
              Inr (store g p (b\<lparr>Head := chain', length_field := length_field b + 1\<rparr>))
       else (\<exists>g1. SnakeRemoveTail g p = Inr g1 \<and>
               SnakeAdvance g1 p d =
                 Inr (store g p (b\<lparr>Head := chain', grow := False,
                        length_field := length_field b\<rparr>)))"
    using SnakeMove_without_food [OF d wf len nc, of rs] by blast
  let ?b2 = "b\<lparr>Head := chain', grow := False, length_field := ?n\<rparr>"
  let ?g2 = "store g p ?b2"
  have d2: "deref ?g2 p = Inr ?b2"
    by (rule deref_store [OF d])
  have food: "\<exists>b3. deref g3 p = Inr b3 \<and> Head b3 = Head ?b2 \<and> length_field b3 = length_field ?b2"
    if "SnakeMove g p d checkDeath True rs = Some (Inr (g3, rs3))" for g3 rs3
    using SnakeMove_food_keeps_chain [OF nc mv d2 that] by auto
  have how': "if grow b
            then (\<exists>g1 b1. SnakeAdvance g p d = Inr g1 \<and> deref g1 p = Inr b1 \<and>
                    ?g2 = store g1 p (b1\<lparr>grow := False\<rparr>))
            else (\<exists>g1. SnakeRemoveTail g p = Inr g1 \<and> SnakeAdvance g1 p d = Inr ?g2)"
  proof (cases "grow b")
    case True
    let ?b1 = "b\<lparr>Head := chain', length_field := length_field b + 1\<rparr>"
    have "SnakeAdvance g p d = Inr (store g p ?b1)"
      using how True by simp
    moreover have "deref (store g p ?b1) p = Inr ?b1"
      by (rule deref_store [OF d])
    moreover have "?g2 = store (store g p ?b1) p (?b1\<lparr>grow := False\<rparr>)"
      using True by (simp add: store_store SnakeBody_update_swap)
    ultimately show ?thesis
      using True by (simp only: if_True) blast
  next
    case False
    with how show ?thesis
      by simp
  qed
  have props: "\<not> grow ?b2" "length_field ?b2 = ?n" "length_field ?b2 = int (length (Head ?b2))"
    using l by simp_all
  show ?thesis
    using mv d2 props how' food by blast
qed


theorem SnakeMove_length_witness:
  "deref example_game (Some 0) = Inr example_body \<and>
   length_field example_body = int (length (Head example_body)) \<and>
   3 \<le> length_field example_body \<and>
   SnakeCheckDeath example_game (Some 0) LEFT = Inr False \<and>
   (\<exists>g2 b2. SnakeMove example_game (Some 0) LEFT True False (sconst 0) =
        Some (Inr (g2, sconst 0)) \<and>
      deref g2 (Some 0) = Inr b2 \<and> \<not> grow b2 \<and> length_field b2 = 4 \<and>
      int (length (Head b2)) = 4)"
proof -
  have d: "deref example_game (Some 0) = Inr example_body"
    using example_deref by (simp add: example_game_def)
  have wf: "length_field example_body = int (length (Head example_body))"
    by (simp add: example_body_def example_chain_def)
  have len: "3 \<le> length_field example_body"
    by (simp add: example_body_def)
  have nc: "True \<longrightarrow> SnakeCheckDeath example_game (Some 0) LEFT = Inr False"
    using example_alive by simp
  have g: "\<not> grow example_body" "length_field example_body = 4"
    by (simp_all add: example_body_def)
  from SnakeMove_length [OF d wf len nc, of "sconst 0"] g d wf len example_alive
  show ?thesis
    by (simp only: if_False) metis
qed

subsection \<open>The dying phase\<close>

lemma deref_skeleTicks_update [simp]: "deref (g\<lparr>skeleTicks := n\<rparr>) p = deref g p"
  by (cases p) (simp_all add: deref_def)

lemma UpdateEndGame_loop_marks_first:
  "\<forall>s\<in>set pre. skeleton s \<Longrightarrow> \<not> skeleton s0 \<Longrightarrow>
   UpdateEndGame_loop (pre @ s0 # post) = Inr (True, pre @ s0\<lparr>skeleton := True\<rparr> # post)"
  by (induction pre) auto

lemma UpdateEndGame_loop_all_marked:
  "chain \<noteq> [] \<Longrightarrow> \<forall>s\<in>set chain. skeleton s \<Longrightarrow> UpdateEndGame_loop chain = Inr (False, chain)"
  by (induction chain) auto

lemma states_distinct:
  "StateGameEnd \<noteq> StateMainMenu" "StateGameEnd \<noteq> StateGameStart" "StateGameEnd \<noteq> StateInGame"
  "StateGameOver \<noteq> StateMainMenu" "StateGameOver \<noteq> StateGameStart"
  "StateGameOver \<noteq> StateInGame" "StateGameOver \<noteq> StateGameEnd"
  by (simp_all add: state_defs)

lemma Update_ticks_add:
  "Update_ticks (m + n) keys g rs =
     bindR (Update_ticks m keys g rs) (\<lambda>(g', rs'). Update_ticks n keys g' rs')"
proof (induction m arbitrary: g rs)
  case 0
  then show ?case by (simp add: bindR_def)
next
  case (Suc m)
  then show ?case
    by (cases "Update g keys rs") (auto simp: bindR_def split: sum.splits)
qed

lemma UpdateEndGame_wait:
  "skeleTicks g + 1 < skeleTicksPerSegment g \<Longrightarrow>
   UpdateEndGame g rs = Some (Inr (g\<lparr>skeleTicks := skeleTicks g + 1\<rparr>, rs))"
  by (simp add: UpdateEndGame_def Let_def)

lemma UpdateEndGame_fire:
  assumes "skeleTicksPerSegment g \<le> skeleTicks g + 1"
    and "deref g (SnakeBody g) = Inr b" and "UpdateEndGame_loop (Head b) = Inr (marked, chain)"
  shows "UpdateEndGame g rs =
           (if \<not> marked
            then ChangeState (store (g\<lparr>skeleTicks := 0\<rparr>) (SnakeBody g) (b\<lparr>Head := chain\<rparr>))
                   StateGameOver rs
            else Some (Inr (store (g\<lparr>skeleTicks := 0\<rparr>) (SnakeBody g) (b\<lparr>Head := chain\<rparr>), rs)))"
proof -
  have "deref (g\<lparr>skeleTicks := 0\<rparr>) (SnakeBody g) = Inr b"
    using assms(2) by simp
  with assms(1,3) show ?thesis
    by (simp add: UpdateEndGame_def Let_def del: UpdateEndGame_loop.simps)
qed



lemma skeleTicks_store [simp]: "skeleTicks (store g p b) = skeleTicks g"
  and skeleTicksPerSegment_store [simp]:
    "skeleTicksPerSegment (store g p b) = skeleTicksPerSegment g"
  by (cases p; simp add: store_def)+

lemma Update_dying:
  "\<not> keys KeyQ \<Longrightarrow> state g = StateGameEnd \<Longrightarrow> Update g keys rs = UpdateEndGame g rs"
  by (simp add: Update_def states_distinct)

text \<open>The states of the dying phase at the start of an interval.\<close>

lemma dying_two_ticks_mark:
  assumes st: "state g = StateGameEnd" and t0: "skeleTicks g = 0"
    and iv: "skeleTicksPerSegment g = 2" and q: "\<not> keys KeyQ"
    and d: "deref g (SnakeBody g) = Inr b" and hd: "Head b = pre @ s0 # post"
    and pre: "\<forall>s\<in>set pre. skeleton s" and s0: "\<not> skeleton s0"
  shows "\<exists>g'. Update_ticks 2 keys g rs = Some (Inr (g', rs)) \<and>
           Update g keys rs = Some (Inr (g\<lparr>skeleTicks := 1\<rparr>, rs)) \<and>
           state g' = StateGameEnd \<and> skeleTicks g' = 0 \<and> skeleTicksPerSegment g' = 2 \<and>
           SnakeBody g' = SnakeBody g \<and>
           deref g' (SnakeBody g') = Inr (b\<lparr>Head := pre @ s0\<lparr>skeleton := True\<rparr> # post\<rparr>)"
proof -
  let ?g1 = "g\<lparr>skeleTicks := 1\<rparr>"
  let ?b' = "b\<lparr>Head := pre @ s0\<lparr>skeleton := True\<rparr> # post\<rparr>"
  let ?g2 = "store (?g1\<lparr>skeleTicks := 0\<rparr>) (SnakeBody ?g1) ?b'"
  have t1: "Update g keys rs = Some (Inr (?g1, rs))"
    using UpdateEndGame_wait [of g rs] Update_dying [of keys g rs] q st t0 iv by simp
  have d1: "deref ?g1 (SnakeBody ?g1) = Inr b"
    using d by simp
  have loop: "UpdateEndGame_loop (Head b) = Inr (True, pre @ s0\<lparr>skeleton := True\<rparr> # post)"
    unfolding hd by (rule UpdateEndGame_loop_marks_first [OF pre s0])
  have "skeleTicksPerSegment ?g1 \<le> skeleTicks ?g1 + 1"
    using iv by simp
  from UpdateEndGame_fire [OF this d1 loop, of rs]
  have t2: "Update ?g1 keys rs = Some (Inr (?g2, rs))"
    using Update_dying [of keys ?g1 rs] q st by simp
  have "Update_ticks 2 keys g rs = Some (Inr (?g2, rs))"
    using t1 t2 by (simp add: numeral_2_eq_2 bindR_def)
  moreover have "deref ?g2 (SnakeBody ?g2) = Inr ?b'"
    using deref_store [of "?g1\<lparr>skeleTicks := 0\<rparr>" "SnakeBody g" b ?b'] d by simp
  ultimately show ?thesis
    using t1 st iv by simp
qed

lemma dying_two_ticks_over:
  assumes st: "state g = StateGameEnd" and t0: "skeleTicks g = 0"
    and iv: "skeleTicksPerSegment g = 2" and q: "\<not> keys KeyQ"
    and d: "deref g (SnakeBody g) = Inr b" and ne: "Head b \<noteq> []"
    and all: "\<forall>s\<in>set (Head b). skeleton s"
  shows "\<exists>g'. Update_ticks 2 keys g rs = Some (Inr (g', rs)) \<and>
           state g' = StateGameOver \<and> deref g' (SnakeBody g') = Inr b"
proof -
  let ?g1 = "g\<lparr>skeleTicks := 1\<rparr>"
  let ?g2 = "(store (?g1\<lparr>skeleTicks := 0\<rparr>) (SnakeBody ?g1) (b\<lparr>Head := Head b\<rparr>))
               \<lparr>state := StateGameOver\<rparr>"
  have t1: "Update g keys rs = Some (Inr (?g1, rs))"
    using UpdateEndGame_wait [of g rs] Update_dying [of keys g rs] q st t0 iv by simp
  have d1: "deref ?g1 (SnakeBody ?g1) = Inr b"
    using d by simp
  have loop: "UpdateEndGame_loop (Head b) = Inr (False, Head b)"
    by (rule UpdateEndGame_loop_all_marked [OF ne all])
  have "skeleTicksPerSegment ?g1 \<le> skeleTicks ?g1 + 1"
    using iv by simp
  from UpdateEndGame_fire [OF this d1 loop, of rs]
  have t2: "Update ?g1 keys rs = Some (Inr (?g2, rs))"
    using Update_dying [of keys ?g1 rs] q st by (simp add: ChangeState_def states_distinct)
  have "Update_ticks 2 keys g rs = Some (Inr (?g2, rs))"
    using t1 t2 by (simp add: numeral_2_eq_2 bindR_def)
  moreover have "deref ?g2 (SnakeBody ?g2) = Inr b"
    using deref_store [of "?g1\<lparr>skeleTicks := 0\<rparr>" "SnakeBody g" b b] d by simp
  ultimately show ?thesis
    by simp
qed


lemma dying_schedule:
  assumes st: "state g = StateGameEnd" and t0: "skeleTicks g = 0"
    and iv: "skeleTicksPerSegment g = 2" and q: "\<not> keys KeyQ"
    and d: "deref g (SnakeBody g) = Inr b" and nosk: "\<forall>s\<in>set (Head b). \<not> skeleton s"
  shows "k \<le> length (Head b) \<Longrightarrow>
         \<exists>g'. Update_ticks (2 * k) keys g rs = Some (Inr (g', rs)) \<and>
           Update_ticks (2 * k + 1) keys g rs = Some (Inr (g'\<lparr>skeleTicks := 1\<rparr>, rs)) \<and>
           state g' = StateGameEnd \<and> skeleTicks g' = 0 \<and> skeleTicksPerSegment g' = 2 \<and>
           SnakeBody g' = SnakeBody g \<and>
           deref g' (SnakeBody g') =
             Inr (b\<lparr>Head := map (\<lambda>s. s\<lparr>skeleton := True\<rparr>) (take k (Head b)) @ drop k (Head b)\<rparr>)"
proof (induction k)
  case 0
  have "Update g keys rs = Some (Inr (g\<lparr>skeleTicks := 1\<rparr>, rs))"
    using UpdateEndGame_wait [of g rs] Update_dying [of keys g rs] q st t0 iv by simp
  then show ?case
    using st t0 iv d by (simp add: bindR_def)
next
  case (Suc k)
  let ?mark = "\<lambda>s. s\<lparr>skeleton := True\<rparr>"
  let ?chain = "Head b"
  from Suc obtain g' where
    run: "Update_ticks (2 * k) keys g rs = Some (Inr (g', rs))"
    and st': "state g' = StateGameEnd" and t0': "skeleTicks g' = 0"
    and iv': "skeleTicksPerSegment g' = 2" and sb': "SnakeBody g' = SnakeBody g"
    and d': "deref g' (SnakeBody g') =
               Inr (b\<lparr>Head := map ?mark (take k ?chain) @ drop k ?chain\<rparr>)"
    by auto
  let ?b' = "b\<lparr>Head := map ?mark (take k ?chain) @ drop k ?chain\<rparr>"
  have k: "k < length ?chain"
    using Suc.prems by simp
  have hd': "Head ?b' = map ?mark (take k ?chain) @ (?chain ! k) # drop (Suc k) ?chain"
    using k by (simp add: Cons_nth_drop_Suc)
  have pre: "\<forall>s\<in>set (map ?mark (take k ?chain)). skeleton s"
    by simp
  have s0: "\<not> skeleton (?chain ! k)"
    using nosk k by simp
  from dying_two_ticks_mark [where keys = keys and rs = rs, OF st' t0' iv' q d' hd' pre s0]
  obtain g'' where two: "Update_ticks 2 keys g' rs = Some (Inr (g'', rs))"
    and st'': "state g'' = StateGameEnd" and t0'': "skeleTicks g'' = 0"
    and iv'': "skeleTicksPerSegment g'' = 2" and sb'': "SnakeBody g'' = SnakeBody g'"
    and d'': "deref g'' (SnakeBody g'') =
                Inr (?b'\<lparr>Head := map ?mark (take k ?chain) @ ?mark (?chain ! k)
                                 # drop (Suc k) ?chain\<rparr>)"
    by blast
  have run': "Update_ticks (2 * Suc k) keys g rs = Some (Inr (g'', rs))"
    using Update_ticks_add [of "2 * k" 2 keys g rs] run two by (simp add: bindR_def)
  have one: "Update g'' keys rs = Some (Inr (g''\<lparr>skeleTicks := 1\<rparr>, rs))"
    using UpdateEndGame_wait [of g'' rs] Update_dying [of keys g'' rs] q st'' t0'' iv'' by simp
  have run1: "Update_ticks (2 * Suc k + 1) keys g rs = Some (Inr (g''\<lparr>skeleTicks := 1\<rparr>, rs))"
    using Update_ticks_add [of "2 * Suc k" 1 keys g rs] run' one by (simp add: bindR_def)
  have "map ?mark (take (Suc k) ?chain) @ drop (Suc k) ?chain =
      map ?mark (take k ?chain) @ ?mark (?chain ! k) # drop (Suc k) ?chain"
    using k by (simp add: take_Suc_conv_app_nth)
  with d'' have "deref g'' (SnakeBody g'') =
      Inr (b\<lparr>Head := map ?mark (take (Suc k) ?chain) @ drop (Suc k) ?chain\<rparr>)"
    by simp
  with run' run1 st'' t0'' iv'' sb'' sb' show ?case
    by auto
qed


lemma dying_game_facts:
  "state dying_game = StateGameEnd" "skeleTicks dying_game = 0"
  "skeleTicksPerSegment dying_game = 2" "\<not> no_keys KeyQ"
  "deref dying_game (SnakeBody dying_game) = Inr dying_body"
  "\<forall>s\<in>set (Head dying_body). \<not> skeleton s" "Head dying_body \<noteq> []"
  "length (Head dying_body) = 5"
  by (simp_all add: dying_game_def example_game_def deref_def no_keys_def dying_body_def)

text \<open>
  C7, as the code has it. In the dying phase, started with the tick counter at 0 and an
  interval of 2 ticks, with no segment a skeleton: after \<open>2 * k\<close> ticks exactly the first
  \<open>k\<close> segments from the head are skeletons, the odd tick in between changes only the tick
  counter, and the state is still \<^verbatim>\<open>StateGameEnd\<close>, also when all segments are marked
  (\<open>k\<close> the number of segments). The change to \<^verbatim>\<open>StateGameOver\<close> happens one interval
  later, in the round that finds no segment left to mark: for five segments after 12
  ticks, not 10.
\<close>

theorem dying_phase_schedule:
  assumes st: "state g = StateGameEnd" and t0: "skeleTicks g = 0"
    and iv: "skeleTicksPerSegment g = 2" and q: "\<not> keys KeyQ"
    and d: "deref g (SnakeBody g) = Inr b" and ne: "Head b \<noteq> []"
    and nosk: "\<forall>s\<in>set (Head b). \<not> skeleton s"
  shows "(\<forall>k\<le>length (Head b). \<exists>g' b'.
            Update_ticks (2 * k) keys g rs = Some (Inr (g', rs)) \<and>
            Update_ticks (2 * k + 1) keys g rs = Some (Inr (g'\<lparr>skeleTicks := 1\<rparr>, rs)) \<and>
            state g' = StateGameEnd \<and> deref g' (SnakeBody g') = Inr b' \<and>
            Head b' = map (\<lambda>s. s\<lparr>skeleton := True\<rparr>) (take k (Head b)) @ drop k (Head b)) \<and>
         (\<exists>g' b'.
            Update_ticks (2 * length (Head b) + 2) keys g rs = Some (Inr (g', rs)) \<and>
            state g' = StateGameOver \<and> deref g' (SnakeBody g') = Inr b' \<and>
            Head b' = map (\<lambda>s. s\<lparr>skeleton := True\<rparr>) (Head b))"
proof (intro conjI allI impI)
  fix k assume "k \<le> length (Head b)"
  from dying_schedule [where keys = keys and rs = rs, OF st t0 iv q d nosk this]
  show "\<exists>g' b'.
            Update_ticks (2 * k) keys g rs = Some (Inr (g', rs)) \<and>
            Update_ticks (2 * k + 1) keys g rs = Some (Inr (g'\<lparr>skeleTicks := 1\<rparr>, rs)) \<and>
            state g' = StateGameEnd \<and> deref g' (SnakeBody g') = Inr b' \<and>
            Head b' = map (\<lambda>s. s\<lparr>skeleton := True\<rparr>) (take k (Head b)) @ drop k (Head b)"
    by auto
next
  let ?mark = "\<lambda>s. s\<lparr>skeleton := True\<rparr>"
  let ?b' = "b\<lparr>Head := map ?mark (Head b)\<rparr>"
  from dying_schedule [where keys = keys and rs = rs and k = "length (Head b)",
      OF st t0 iv q d nosk]
  obtain g' where run: "Update_ticks (2 * length (Head b)) keys g rs = Some (Inr (g', rs))"
    and st': "state g' = StateGameEnd" and t0': "skeleTicks g' = 0"
    and iv': "skeleTicksPerSegment g' = 2"
    and d': "deref g' (SnakeBody g') = Inr ?b'"
    by auto
  have ne': "Head ?b' \<noteq> []" and all: "\<forall>s\<in>set (Head ?b'). skeleton s"
    using ne by simp_all
  from dying_two_ticks_over [where keys = keys and rs = rs, OF st' t0' iv' q d' ne' all]
  obtain g'' where two: "Update_ticks 2 keys g' rs = Some (Inr (g'', rs))"
    and st'': "state g'' = StateGameOver" and d'': "deref g'' (SnakeBody g'') = Inr ?b'"
    by blast
  have "Update_ticks (2 * length (Head b) + 2) keys g rs = Some (Inr (g'', rs))"
    using Update_ticks_add [of "2 * length (Head b)" 2 keys g rs] run two
    by (simp add: bindR_def)
  with st'' d'' show "\<exists>g' b'.
            Update_ticks (2 * length (Head b) + 2) keys g rs = Some (Inr (g', rs)) \<and>
            state g' = StateGameOver \<and> deref g' (SnakeBody g') = Inr b' \<and>
            Head b' = map ?mark (Head b)"
    by (intro exI [of _ g''] exI [of _ ?b']) simp
qed

text \<open>
  The claim as stated fails: after 10 ticks on five segments the state is still
  \<^verbatim>\<open>StateGameEnd\<close>.
\<close>

theorem dying_phase_schedule_counterexample:
  "map_option (map_sum id (state \<circ> fst)) (Update_ticks 10 no_keys dying_game (sconst 0)) =
     Some (Inr StateGameEnd) \<and>
   StateGameEnd \<noteq> StateGameOver"
proof -
  have "(5::nat) \<le> length (Head dying_body)"
    by (simp add: dying_game_facts)
  from dying_schedule [where keys = no_keys and rs = "sconst 0",
      OF dying_game_facts(1-6) this]
  show ?thesis
    by (auto simp: state_defs)
qed

theorem dying_phase_schedule_witness:
  "state dying_game = StateGameEnd \<and> skeleTicks dying_game = 0 \<and>
   skeleTicksPerSegment dying_game = 2 \<and>
   deref dying_game (SnakeBody dying_game) = Inr dying_body \<and>
   map skeleton (Head dying_body) = [False, False, False, False, False] \<and>
   (\<exists>g' b'. Update_ticks 10 no_keys dying_game (sconst 0) = Some (Inr (g', sconst 0)) \<and>
      state g' = StateGameEnd \<and> deref g' (SnakeBody g') = Inr b' \<and>
      map skeleton (Head b') = [True, True, True, True, True]) \<and>
   (\<exists>g' b'. Update_ticks 12 no_keys dying_game (sconst 0) = Some (Inr (g', sconst 0)) \<and>
      state g' = StateGameOver \<and> deref g' (SnakeBody g') = Inr b' \<and>
      map skeleton (Head b') = [True, True, True, True, True])"
proof -
  note inst = dying_phase_schedule [where keys = no_keys and rs = "sconst 0", OF dying_game_facts(1-5)
      dying_game_facts(7) dying_game_facts(6)]
  from inst [THEN conjunct1] have a: "\<forall>k\<le>5. \<exists>g' b'.
            Update_ticks (2 * k) no_keys dying_game (sconst 0) = Some (Inr (g', sconst 0)) \<and>
            Update_ticks (2 * k + 1) no_keys dying_game (sconst 0) =
              Some (Inr (g'\<lparr>skeleTicks := 1\<rparr>, sconst 0)) \<and>
            state g' = StateGameEnd \<and> deref g' (SnakeBody g') = Inr b' \<and>
            Head b' = map (\<lambda>s. s\<lparr>skeleton := True\<rparr>) (take k (Head dying_body)) @
              drop k (Head dying_body)"
    by (simp only: dying_game_facts(8))
  from a [rule_format, of 5]
  obtain g10 b10 where
    r10: "Update_ticks 10 no_keys dying_game (sconst 0) = Some (Inr (g10, sconst 0))"
    and s10: "state g10 = StateGameEnd" and d10: "deref g10 (SnakeBody g10) = Inr b10"
    and h10: "Head b10 = map (\<lambda>s. s\<lparr>skeleton := True\<rparr>) (take 5 (Head dying_body)) @
              drop 5 (Head dying_body)"
    by auto
  from h10 have m10: "map skeleton (Head b10) = [True, True, True, True, True]"
    by (simp add: dying_body_def)
  have ten: "\<exists>g' b'. Update_ticks 10 no_keys dying_game (sconst 0) = Some (Inr (g', sconst 0)) \<and>
      state g' = StateGameEnd \<and> deref g' (SnakeBody g') = Inr b' \<and>
      map skeleton (Head b') = [True, True, True, True, True]"
    using r10 s10 d10 m10 by (intro exI [of _ g10] exI [of _ b10] conjI)
  from inst [THEN conjunct2]
  obtain g12 b12 where
    r12: "Update_ticks (2 * length (Head dying_body) + 2) no_keys dying_game (sconst 0) =
        Some (Inr (g12, sconst 0))"
    and s12: "state g12 = StateGameOver" and d12: "deref g12 (SnakeBody g12) = Inr b12"
    and h12: "Head b12 = map (\<lambda>s. s\<lparr>skeleton := True\<rparr>) (Head dying_body)"
    by blast
  from h12 have m12: "map skeleton (Head b12) = [True, True, True, True, True]"
    by (simp add: dying_body_def)
  from r12 have r12': "Update_ticks 12 no_keys dying_game (sconst 0) = Some (Inr (g12, sconst 0))"
    by (simp add: dying_game_facts(8))
  have twelve: "\<exists>g' b'. Update_ticks 12 no_keys dying_game (sconst 0) =
        Some (Inr (g', sconst 0)) \<and>
      state g' = StateGameOver \<and> deref g' (SnakeBody g') = Inr b' \<and>
      map skeleton (Head b') = [True, True, True, True, True]"
    using r12' s12 d12 m12 by (intro exI [of _ g12] exI [of _ b12] conjI)
  have "map skeleton (Head dying_body) = [False, False, False, False, False]"
    by (simp add: dying_body_def)
  with ten twelve dying_game_facts(1-5) show ?thesis
    by blast
qed

subsection \<open>The speed of the snake\<close>

lemma example_update_returns:
  "\<exists>g'. UpdateInGame example_game no_keys (sconst 0) = Some (Inr (g', sconst 0))"
  by (simp add: UpdateInGame_def UpdateInGame_input_def no_keys_def example_game_def
      SnakeMove_def SnakeCheckDeath_def SnakeGetNextPos_def deref_def store_def
      example_body_def example_chain_def direction_defs SnakeRemoveTail_def
      SnakeRemoveTail_tile_def node_head_def node_next_def SnakeAdvance_def
      SnakeAdvance_tiles_def SnakeCheckFood_def RandomSnakeTongue_def bindR_def Let_def)


lemma example_reset_returns:
  "\<exists>g'. Reset example_game (sconst 0) = Some (Inr (g', sconst 0))"
  unfolding Reset_def SpawnSnake_def SpawnFood_def Let_def
  by (subst SpawnFood_loop.simps)
    (simp add: example_game_def Intn_def deref_def go_quot_def bindR_def)

lemma RandomSnakeTongue_keeps:
  "RandomSnakeTongue g rs = Inr (g', rs') \<Longrightarrow>
   score g' = score g \<and> ticksPerMovement g' = ticksPerMovement g"
  by (auto simp: RandomSnakeTongue_def Intn_def Let_def split: if_splits)

lemma UpdateInGame_input_keeps:
  "UpdateInGame_input g keys = Inr g1 \<Longrightarrow>
   ticks g1 = ticks g \<and> ticksPerMovement g1 = ticksPerMovement g"
  by (auto simp: UpdateInGame_input_def split: if_splits sum.splits)

lemma speed_formula: "40 - min s 33 = max (40 - s) (7::int)"
  by simp

lemma UpdateInGame_move_speed:
  assumes run: "UpdateInGame g keys rs = Some (Inr (g', rs'))"
    and due: "ticksPerMovement g \<le> ticks g + 1"
  shows "ticksPerMovement g' = max (40 - score g') 7"
proof -
  obtain g1 where inp: "UpdateInGame_input g keys = Inr g1"
    using run by (cases "UpdateInGame_input g keys") (simp_all add: UpdateInGame_def)
  note k = UpdateInGame_input_keeps [OF inp]
  let ?g2 = "g1\<lparr>ticks := ticks g1 + 1\<rparr>"
  have due': "ticksPerMovement ?g2 \<le> ticks ?g2"
    using due k by simp
  let ?mv = "SnakeMove (?g2\<lparr>ticks := 0\<rparr>) (SnakeBody ?g2) (SnakeDirection ?g2) True True rs"
  have run': "bindR (bindR ?mv
        (\<lambda>(g3, rs3). Some (Inr (g3\<lparr>ticksPerMovement := 40 - min (score g3) 33\<rparr>, rs3))))
      (\<lambda>(g4, rs4). Some (RandomSnakeTongue g4 rs4)) = Some (Inr (g', rs'))"
    using run due' unfolding UpdateInGame_def inp by (simp add: Let_def)
  then obtain g3 rs3 where mv: "?mv = Some (Inr (g3, rs3))"
    by (cases ?mv) (auto simp: bindR_def split: sum.splits)
  with run' have "RandomSnakeTongue (g3\<lparr>ticksPerMovement := 40 - min (score g3) 33\<rparr>) rs3 =
      Inr (g', rs')"
    by (simp add: bindR_def)
  from RandomSnakeTongue_keeps [OF this] show ?thesis
    by (simp add: speed_formula)
qed

lemma Reset_speed:
  assumes "Reset g rs = Some (Inr (g', rs'))"
  shows "ticksPerMovement g' = 30 \<and> score g' = 0"
proof -
  let ?g1 = "g\<lparr>ticksPerMovement := 30, SnakeDirection := UP, countDownNum := 3,
                 score := 0, skeleTicks := 0\<rparr>"
  let ?sp = "SpawnSnake ?g1 (go_quot (width ?g1) 2) (go_quot (height ?g1) 2)"
  have "SpawnFood ((snd ?sp)\<lparr>SnakeBody := fst ?sp\<rparr>) rs = Some (Inr (g', rs'))"
    using assms by (simp add: Reset_def Let_def case_prod_beta)
  then obtain f where "g' = ((snd ?sp)\<lparr>SnakeBody := fst ?sp\<rparr>)\<lparr>food := Some f\<rparr>"
    using SpawnFood_only_food by blast
  then show ?thesis
    by (simp add: SpawnSnake_def Let_def)
qed

lemma states_distinct2:
  "StateGameStart \<noteq> StateMainMenu" "StateInGame \<noteq> StateMainMenu"
  "StateInGame \<noteq> StateGameStart"
  by (simp_all add: state_defs)

lemma ChangeState_GameStart_speed:
  assumes "ChangeState g StateGameStart rs = Some (Inr (g', rs'))"
  shows "ticksPerMovement g' = 30 \<and> score g' = 0 \<and> state g' = StateGameStart"
proof -
  from assms obtain g1 where r: "Reset g rs = Some (Inr (g1, rs'))"
    and g': "g' = g1\<lparr>state := StateGameStart\<rparr>"
    by (cases "Reset g rs")
      (auto simp: ChangeState_def states_distinct2 bindR_def split: sum.splits)
  from Reset_speed [OF r] g' show ?thesis
    by simp
qed

lemma countdown_keeps_speed:
  assumes "state g = StateGameStart" and "\<not> keys KeyQ"
    and "Update g keys rs = Some (Inr (g', rs'))"
  shows "ticksPerMovement g' = ticksPerMovement g \<and> score g' = score g"
  using assms
  by (auto simp: Update_def ChangeState_def states_distinct2 Let_def split: if_splits)

text \<open>
  C4, as the code has it. In play, a tick on which a move is due sets the ticks per move
  to \<open>max (40 - score) 7\<close> for the score after the move (40 at score 0, 7 at score 33 and
  at score 100), whether or not the move ended in a collision. A session does not start
  at 40: \<^verbatim>\<open>Reset\<close>, and so the change to \<^verbatim>\<open>StateGameStart\<close>, sets 30 ticks per
  move with score 0, the ticks of the countdown keep that value, and the formula applies
  from the first move on.
\<close>

theorem speed_law:
  "(\<forall>g' rs'. UpdateInGame g keys rs = Some (Inr (g', rs')) \<and>
              ticksPerMovement g \<le> ticks g + 1 \<longrightarrow>
       ticksPerMovement g' = max (40 - score g') 7 \<and>
       (score g' = 0 \<longrightarrow> ticksPerMovement g' = 40) \<and>
       (score g' = 33 \<longrightarrow> ticksPerMovement g' = 7) \<and>
       (score g' = 100 \<longrightarrow> ticksPerMovement g' = 7)) \<and>
   (\<forall>g' rs'. ChangeState g StateGameStart rs = Some (Inr (g', rs')) \<longrightarrow>
       ticksPerMovement g' = 30 \<and> score g' = 0 \<and> state g' = StateGameStart) \<and>
   (\<forall>g' rs'. state g = StateGameStart \<and> \<not> keys KeyQ \<and>
              Update g keys rs = Some (Inr (g', rs')) \<longrightarrow>
       ticksPerMovement g' = ticksPerMovement g \<and> score g' = score g)"
proof (intro conjI allI impI; (elim conjE)?)
  fix g' rs'
  assume "UpdateInGame g keys rs = Some (Inr (g', rs'))" "ticksPerMovement g \<le> ticks g + 1"
  then have law: "ticksPerMovement g' = max (40 - score g') 7"
    by (rule UpdateInGame_move_speed)
  show "ticksPerMovement g' = max (40 - score g') 7"
    by (rule law)
  show "ticksPerMovement g' = 40" if "score g' = 0"
    using law that by simp
  show "ticksPerMovement g' = 7" if "score g' = 33"
    using law that by simp
  show "ticksPerMovement g' = 7" if "score g' = 100"
    using law that by simp
next
  fix g' rs'
  assume r: "ChangeState g StateGameStart rs = Some (Inr (g', rs'))"
  from ChangeState_GameStart_speed [OF r]
  show "ticksPerMovement g' = 30" "score g' = 0" "state g' = StateGameStart"
    by simp_all
next
  fix g' rs'
  assume "state g = StateGameStart" "\<not> keys KeyQ" "Update g keys rs = Some (Inr (g', rs'))"
  from countdown_keeps_speed [OF this]
  show "ticksPerMovement g' = ticksPerMovement g" "score g' = score g"
    by simp_all
qed


text \<open>
  The claim as stated fails: a session started from the example game has 30 ticks per
  move, not 40, before any point is scored.
\<close>

theorem speed_law_counterexample:
  "map_option (map_sum id (ticksPerMovement \<circ> fst))
     (ChangeState example_game StateGameStart (sconst 0)) = Some (Inr 30)"
proof -
  obtain g1 where r: "Reset example_game (sconst 0) = Some (Inr (g1, sconst 0))"
    using example_reset_returns by blast
  then have c: "ChangeState example_game StateGameStart (sconst 0) =
      Some (Inr (g1\<lparr>state := StateGameStart\<rparr>, sconst 0))"
    by (simp add: ChangeState_def states_distinct2 bindR_def)
  from ChangeState_GameStart_speed [OF c] c show ?thesis
    by simp
qed

theorem speed_law_witness:
  "ticksPerMovement example_game \<le> ticks example_game + 1 \<and>
   (\<exists>g'. UpdateInGame example_game no_keys (sconst 0) = Some (Inr (g', sconst 0)) \<and>
      score g' = 0 \<and> ticksPerMovement g' = 40) \<and>
   (\<exists>g'. ChangeState example_game StateGameStart (sconst 0) = Some (Inr (g', sconst 0)) \<and>
      ticksPerMovement g' = 30 \<and> score g' = 0 \<and> state g' = StateGameStart \<and>
      (\<exists>g''. Update g' no_keys (sconst 0) = Some (Inr (g'', sconst 0)) \<and>
         ticksPerMovement g'' = 30))"
proof -
  have due: "ticksPerMovement example_game \<le> ticks example_game + 1"
    by (simp add: example_game_def)
  obtain g' where run: "UpdateInGame example_game no_keys (sconst 0) = Some (Inr (g', sconst 0))"
    using example_update_returns by blast
  have sc: "score g' = 0"
    using run
    by (simp add: UpdateInGame_def UpdateInGame_input_def no_keys_def example_game_def
      SnakeMove_def SnakeCheckDeath_def SnakeGetNextPos_def deref_def store_def
      example_body_def example_chain_def direction_defs SnakeRemoveTail_def
      SnakeRemoveTail_tile_def node_head_def node_next_def SnakeAdvance_def
      SnakeAdvance_tiles_def SnakeCheckFood_def RandomSnakeTongue_def bindR_def Let_def)
      auto
  note inst = speed_law [of example_game no_keys "sconst 0"]
  from inst [THEN conjunct1, rule_format, of g' "sconst 0"] run due sc
  have a: "\<exists>g'. UpdateInGame example_game no_keys (sconst 0) = Some (Inr (g', sconst 0)) \<and>
      score g' = 0 \<and> ticksPerMovement g' = 40"
    by (intro exI [of _ g']) simp
  obtain g1 where r: "Reset example_game (sconst 0) = Some (Inr (g1, sconst 0))"
    using example_reset_returns by blast
  let ?g = "g1\<lparr>state := StateGameStart\<rparr>"
  have c: "ChangeState example_game StateGameStart (sconst 0) = Some (Inr (?g, sconst 0))"
    using r by (simp add: ChangeState_def states_distinct2 bindR_def)
  from inst [THEN conjunct2, THEN conjunct1, rule_format, of ?g "sconst 0"] c
  have b: "ticksPerMovement ?g = 30" "score ?g = 0" "state ?g = StateGameStart"
    by simp_all
  have cd: "countDownNum g1 = 3"
    using r unfolding Reset_def SpawnSnake_def SpawnFood_def Let_def
    by (auto simp: bindR_def split: option.splits sum.splits)
  have u: "\<exists>g''. Update ?g no_keys (sconst 0) = Some (Inr (g'', sconst 0)) \<and>
      ticksPerMovement g'' = 30"
    using b cd by (simp add: Update_def no_keys_def states_distinct2 Let_def)
  from due a b c u show ?thesis
    by blast
qed


subsection \<open>Food placement\<close>

lemma Intn_range: "Intn n rs = Inr (v, rs1) \<Longrightarrow> 0 \<le> v \<and> v < n \<and> rs1 = stl rs"
  by (auto simp: Intn_def split: if_splits)

lemma SpawnFood_taken_False:
  "SpawnFood_taken x y chain = Inr False \<Longrightarrow>
   \<forall>seg\<in>set chain. \<not> (seg_x seg = x \<and> seg_y seg = y)"
  by (induction chain) (auto split: if_splits)

lemma SpawnFood_loop_result:
  assumes "SpawnFood_loop g rs = Some r"
  shows "\<forall>x y rs'. r = Inr (x, y, rs') \<longrightarrow>
           0 \<le> x \<and> x < width g - 1 \<and> 0 \<le> y \<and> y < height g - 1 \<and>
           (\<exists>b. deref g (SnakeBody g) = Inr b \<and> SpawnFood_taken x y (Head b) = Inr False)"
  using assms
proof (induction g rs r rule: SpawnFood_loop.raw_induct [rotated 1, consumes 1])
  case (1 loop g rs r)
  show ?case
  proof (intro allI impI)
    fix x y rs'
    assume r: "r = Inr (x, y, rs')"
    from 1(2) r obtain x0 rs1 where i1: "Intn (width g - 1) rs = Inr (x0, rs1)"
      by (cases "Intn (width g - 1) rs") auto
    from 1(2) r i1 obtain y0 rs2 where i2: "Intn (height g - 1) rs1 = Inr (y0, rs2)"
      by (cases "Intn (height g - 1) rs1") auto
    from 1(2) r i1 i2 obtain b where d: "deref g (SnakeBody g) = Inr b"
      by (cases "deref g (SnakeBody g)") auto
    from 1(2) r i1 i2 d obtain taken where t: "SpawnFood_taken x0 y0 (Head b) = Inr taken"
      by (cases "SpawnFood_taken x0 y0 (Head b)") auto
    show "0 \<le> x \<and> x < width g - 1 \<and> 0 \<le> y \<and> y < height g - 1 \<and>
           (\<exists>b. deref g (SnakeBody g) = Inr b \<and> SpawnFood_taken x y (Head b) = Inr False)"
    proof (cases taken)
      case True
      with 1(2) i1 i2 d t have "loop g rs2 = Some r"
        by simp
      from 1(1) [OF this] r show ?thesis
        by blast
    next
      case False
      with 1(2) i1 i2 d t r have "x = x0" "y = y0"
        by simp_all
      with Intn_range [OF i1] Intn_range [OF i2] d t False show ?thesis
        by auto
    qed
  qed
qed

text \<open>
  C6. When \<^verbatim>\<open>SpawnFood\<close> returns, only the food has changed and the food lies on no
  segment of the game's snake. But the coordinates come from \<^verbatim>\<open>rand.Intn(g.width - 1)\<close>
  and \<^verbatim>\<open>rand.Intn(g.height - 1)\<close>: they are below \<open>width - 1\<close> and \<open>height - 1\<close>, so no
  cell of the last column or the last row is ever sampled or returned, for any random
  stream.
\<close>

theorem SpawnFood_misses_last_row_and_column:
  assumes "SpawnFood g rs = Some (Inr (g', rs'))"
  shows "\<exists>f b. g' = g\<lparr>food := Some f\<rparr> \<and> deref g (SnakeBody g) = Inr b \<and>
           (\<forall>seg\<in>set (Head b). \<not> (seg_x seg = food_x f \<and> seg_y seg = food_y f)) \<and>
           0 \<le> food_x f \<and> food_x f < width g - 1 \<and>
           0 \<le> food_y f \<and> food_y f < height g - 1 \<and>
           food_x f \<noteq> width g - 1 \<and> food_y f \<noteq> height g - 1"
proof -
  from assms obtain x y where loop: "SpawnFood_loop g rs = Some (Inr (x, y, rs'))"
    and g': "g' = g\<lparr>food := Some \<lparr>food_x = x, food_y = y\<rparr>\<rparr>"
    by (cases "SpawnFood_loop g rs")
      (auto simp: SpawnFood_def bindR_def split: sum.splits)
  from SpawnFood_loop_result [OF loop]
  obtain b where rng: "0 \<le> x" "x < width g - 1" "0 \<le> y" "y < height g - 1"
    and d: "deref g (SnakeBody g) = Inr b" and t: "SpawnFood_taken x y (Head b) = Inr False"
    by blast
  from SpawnFood_taken_False [OF t] rng d g' show ?thesis
    by (intro exI [of _ "\<lparr>food_x = x, food_y = y\<rparr>"] exI [of _ b]) simp
qed

text \<open>
  On the board of 27 by 20 the draws are taken below 26 and below 19: the random numbers
  26 and 19 give the cell \<open>(0, 0)\<close>, and no random numbers give a cell with \<open>x = 26\<close> or
  \<open>y = 19\<close>.
\<close>

theorem SpawnFood_misses_last_row_and_column_witness:
  "SpawnFood example_game (26 ## 19 ## sconst 0) =
     Some (Inr (example_game\<lparr>food := Some \<lparr>food_x = 0, food_y = 0\<rparr>\<rparr>, sconst 0)) \<and>
   width example_game - 1 = 26 \<and> height example_game - 1 = 19"
proof -
  have run: "SpawnFood example_game (26 ## 19 ## sconst 0) =
     Some (Inr (example_game\<lparr>food := Some \<lparr>food_x = 0, food_y = 0\<rparr>\<rparr>, sconst 0))"
    unfolding SpawnFood_def
    by (subst SpawnFood_loop.simps)
      (simp add: example_game_def Intn_def deref_def bindR_def example_body_def
        example_chain_def)
  from SpawnFood_misses_last_row_and_column [OF run] run show ?thesis
    by (simp add: example_game_def)
qed


subsection \<open>The random direction\<close>

text \<open>The three directions that \<^verbatim>\<open>snakeDirection(rand.Intn(3) + 1)\<close> can be.\<close>

lemma Intn_3_direction:
  assumes "Intn 3 rs = Inr (r, rs1)"
  shows "(word_of_int (r + 1) :: snakeDirection) = UP \<or>
         (word_of_int (r + 1) :: snakeDirection) = DOWN \<or>
         (word_of_int (r + 1) :: snakeDirection) = LEFT"
proof -
  from Intn_range [OF assms] have "r = 0 \<or> r = 1 \<or> r = 2"
    by auto
  then show ?thesis
    by (auto simp: direction_defs)
qed

lemma RandomSnakeDirection_loop_result:
  assumes "RandomSnakeDirection_loop cur rs = Some r"
  shows "\<forall>d rs'. r = Inr (d, rs') \<longrightarrow>
           ((cur = UP \<or> cur = DOWN) \<and> d = LEFT) \<or>
           ((cur = LEFT \<or> cur = RIGHT) \<and> (d = UP \<or> d = DOWN))"
  using assms
proof (induction cur rs r rule: RandomSnakeDirection_loop.raw_induct [rotated 1, consumes 1])
  case (1 loop cur rs r)
  show ?case
  proof (intro allI impI)
    fix d rs'
    assume r: "r = Inr (d, rs')"
    from 1(2) r obtain v rs1 where i: "Intn 3 rs = Inr (v, rs1)"
      by (cases "Intn 3 rs") auto
    let ?d = "word_of_int (v + 1) :: snakeDirection"
    note three = Intn_3_direction [OF i]
    have nr: "?d \<noteq> RIGHT"
      using three dirs_distinct by auto
    have body: "(if cur = UP \<or> cur = DOWN then
             (if ?d = LEFT \<or> ?d = RIGHT then Some (Inr (?d, rs1)) else loop cur rs1)
           else if cur = LEFT \<or> cur = RIGHT then
             (if ?d = UP \<or> ?d = DOWN then Some (Inr (?d, rs1)) else loop cur rs1)
           else loop cur rs1) = Some r"
      using 1(2) unfolding i Let_def by (simp only: sum.case prod.case)
    show "((cur = UP \<or> cur = DOWN) \<and> d = LEFT) \<or>
           ((cur = LEFT \<or> cur = RIGHT) \<and> (d = UP \<or> d = DOWN))"
    proof (cases "cur = UP \<or> cur = DOWN")
      case ud: True
      show ?thesis
      proof (cases "?d = LEFT \<or> ?d = RIGHT")
        case True
        with body ud have "r = Inr (?d, rs1)"
          by (simp only: if_True option.inject)
        with r True nr ud show ?thesis
          by (simp only: sum.inject prod.inject) blast
      next
        case False
        with body ud have "loop cur rs1 = Some r"
          by (simp only: if_True if_False)
        from 1(1) [OF this] r show ?thesis
          by blast
      qed
    next
      case nud: False
      show ?thesis
      proof (cases "cur = LEFT \<or> cur = RIGHT")
        case lr: True
        show ?thesis
        proof (cases "?d = UP \<or> ?d = DOWN")
          case True
          with body nud lr have "r = Inr (?d, rs1)"
            by (simp only: if_True if_False option.inject)
          with r True lr show ?thesis
            by (simp only: sum.inject prod.inject) blast
        next
          case False
          with body nud lr have "loop cur rs1 = Some r"
            by (simp only: if_True if_False)
          from 1(1) [OF this] r show ?thesis
            by blast
        qed
      next
        case False
        with body nud have "loop cur rs1 = Some r"
          by (simp only: if_False)
        from 1(1) [OF this] r show ?thesis
          by blast
      qed
    qed
  qed
qed

text \<open>
  C9. \<^verbatim>\<open>RandomSnakeDirection\<close> keeps the current direction when the first random
  number, taken into 0..99, is at most 50: for 51 of the 100 values, not 50. Otherwise it
  draws \<^verbatim>\<open>rand.Intn(3) + 1\<close>, which is never \<^verbatim>\<open>RIGHT\<close> (4): from \<^verbatim>\<open>UP\<close> or
  \<^verbatim>\<open>DOWN\<close> the only turn ever returned is \<^verbatim>\<open>LEFT\<close>, for any random stream; from
  \<^verbatim>\<open>LEFT\<close> or \<^verbatim>\<open>RIGHT\<close> it is \<^verbatim>\<open>UP\<close> or \<^verbatim>\<open>DOWN\<close>.
\<close>

theorem RandomSnakeDirection_never_turns_right:
  "(shd rs mod 100 \<le> 50 \<longrightarrow> RandomSnakeDirection cur rs = Some (Inr (cur, stl rs))) \<and>
   (\<forall>d rs'. RandomSnakeDirection cur rs = Some (Inr (d, rs')) \<longrightarrow>
      (d = cur \<and> shd rs mod 100 \<le> 50) \<or>
      (50 < shd rs mod 100 \<and>
       (((cur = UP \<or> cur = DOWN) \<and> d = LEFT) \<or>
        ((cur = LEFT \<or> cur = RIGHT) \<and> (d = UP \<or> d = DOWN))))) \<and>
   (\<forall>d rs'. (cur = UP \<or> cur = DOWN) \<and>
      RandomSnakeDirection cur rs = Some (Inr (d, rs')) \<longrightarrow> d \<noteq> RIGHT)"
proof -
  have a: "RandomSnakeDirection cur rs = Some (Inr (cur, stl rs))" if "shd rs mod 100 \<le> 50"
    using that by (simp add: RandomSnakeDirection_def Intn_def)
  have b: "(d = cur \<and> shd rs mod 100 \<le> 50) \<or>
      (50 < shd rs mod 100 \<and>
       (((cur = UP \<or> cur = DOWN) \<and> d = LEFT) \<or>
        ((cur = LEFT \<or> cur = RIGHT) \<and> (d = UP \<or> d = DOWN))))"
    if run: "RandomSnakeDirection cur rs = Some (Inr (d, rs'))" for d rs'
  proof (cases "shd rs mod 100 \<le> 50")
    case True
    with run a show ?thesis by simp
  next
    case False
    with run have "RandomSnakeDirection_loop cur (stl rs) = Some (Inr (d, rs'))"
      by (simp add: RandomSnakeDirection_def Intn_def)
    from RandomSnakeDirection_loop_result [OF this] False show ?thesis
      by auto
  qed
  have c: "d \<noteq> RIGHT"
    if "cur = UP \<or> cur = DOWN" and "RandomSnakeDirection cur rs = Some (Inr (d, rs'))" for d rs'
    using b [OF that(2)] that(1) dirs_distinct by auto
  from a b c show ?thesis
    by blast
qed

text \<open>
  Facing up, the random numbers 60, 3, 2 give a turn to the left: 60 asks for a turn,
  3 is the draw 0 of \<^verbatim>\<open>rand.Intn(3)\<close>, that is \<^verbatim>\<open>UP\<close>, which the loop refuses, and 2
  is \<^verbatim>\<open>LEFT\<close>. The random number 50 keeps the direction.
\<close>

theorem RandomSnakeDirection_never_turns_right_witness:
  "RandomSnakeDirection UP (60 ## 3 ## sconst 2) = Some (Inr (LEFT, sconst 2)) \<and>
   RandomSnakeDirection UP (50 ## sconst 2) = Some (Inr (UP, sconst 2)) \<and>
   LEFT \<noteq> RIGHT"
proof -
  have l1: "RandomSnakeDirection_loop UP (sconst 2) = Some (Inr (LEFT, sconst 2))"
    by (subst RandomSnakeDirection_loop.simps) (simp add: Intn_def direction_defs)
  have l2: "RandomSnakeDirection_loop UP (3 ## sconst 2) = Some (Inr (LEFT, sconst 2))"
    by (subst RandomSnakeDirection_loop.simps) (simp add: Intn_def l1, simp add: direction_defs)
  have run: "RandomSnakeDirection UP (60 ## 3 ## sconst 2) = Some (Inr (LEFT, sconst 2))"
    by (simp add: RandomSnakeDirection_def Intn_def l2)
  have str: "RandomSnakeDirection UP (50 ## sconst 2) = Some (Inr (UP, sconst 2))"
    using RandomSnakeDirection_never_turns_right [of "50 ## sconst 2" UP] by simp
  from RandomSnakeDirection_never_turns_right [of "60 ## 3 ## sconst 2" UP] run str show ?thesis
    by simp
qed

subsection \<open>The new game\<close>

text \<open>
  The interval of the dying phase is the 2 that \<^verbatim>\<open>NewGame\<close> sets: the reset and the
  growing of the menu snake keep it, as they keep the size of the board.
\<close>

lemma SnakeAdvance_store: "SnakeAdvance g p d = Inr g' \<Longrightarrow> \<exists>b. g' = store g p b"
  by (auto simp: SnakeAdvance_def split: sum.splits prod.splits)

lemma Reset_fields:
  assumes "Reset g rs = Some (Inr (g', rs'))"
  shows "skeleTicksPerSegment g' = skeleTicksPerSegment g \<and> width g' = width g \<and>
         height g' = height g"
proof -
  let ?g1 = "g\<lparr>ticksPerMovement := 30, SnakeDirection := UP, countDownNum := 3,
                 score := 0, skeleTicks := 0\<rparr>"
  let ?sp = "SpawnSnake ?g1 (go_quot (width ?g1) 2) (go_quot (height ?g1) 2)"
  have "SpawnFood ((snd ?sp)\<lparr>SnakeBody := fst ?sp\<rparr>) rs = Some (Inr (g', rs'))"
    using assms by (simp add: Reset_def Let_def case_prod_beta)
  then obtain f where "g' = ((snd ?sp)\<lparr>SnakeBody := fst ?sp\<rparr>)\<lparr>food := Some f\<rparr>"
    using SpawnFood_only_food by blast
  then show ?thesis
    by (simp add: SpawnSnake_def Let_def)
qed

lemma ChangeState_loop_fields:
  assumes "ChangeState_loop i g rs = Some r"
  shows "\<forall>g' rs'. r = Inr (g', rs') \<longrightarrow>
           skeleTicksPerSegment g' = skeleTicksPerSegment g \<and> width g' = width g \<and>
           height g' = height g \<and> score g' = score g"
  using assms
proof (induction i g rs r rule: ChangeState_loop.raw_induct [rotated 1, consumes 1])
  case (1 loop i g rs r)
  show ?case
  proof (intro allI impI)
    fix g' rs'
    assume r: "r = Inr (g', rs')"
    from 1(2) r obtain v rs1 where i1: "Intn 100 rs = Inr (v, rs1)"
      by (cases "Intn 100 rs") auto
    show "skeleTicksPerSegment g' = skeleTicksPerSegment g \<and> width g' = width g \<and>
           height g' = height g \<and> score g' = score g"
    proof (cases "i \<le> v")
      case False
      with 1(2) i1 r show ?thesis
        by simp
    next
      case True
      from 1(2) r i1 True obtain f where hf: "head_facing g = Inr f"
        by (cases "head_facing g") auto
      from 1(2) r i1 True hf obtain d rs2 where
        rd: "RandomSnakeDirection f rs1 = Some (Inr (d, rs2))"
        by (cases "RandomSnakeDirection f rs1") (auto split: sum.splits)
      from 1(2) r i1 True hf rd obtain g1 where
        adv: "SnakeAdvance g (SnakeBody g) d = Inr g1"
        by (cases "SnakeAdvance g (SnakeBody g) d") auto
      from 1(2) i1 True hf rd adv have "loop (i + 1) g1 rs2 = Some r"
        by simp
      from 1(1) [OF this] r
      have "skeleTicksPerSegment g' = skeleTicksPerSegment g1 \<and> width g' = width g1 \<and>
           height g' = height g1 \<and> score g' = score g1"
        by blast
      moreover from SnakeAdvance_store [OF adv] obtain b where "g1 = store g (SnakeBody g) b"
        by blast
      ultimately show ?thesis
        by simp
    qed
  qed
qed

text \<open>A reset leaves the game with a snake of three segments that is not growing.\<close>

lemma Reset_snake:
  assumes "Reset g rs = Some (Inr (g', rs'))"
  shows "\<exists>b. deref g' (SnakeBody g') = Inr b \<and> length_field b = 3 \<and>
           length (Head b) = 3 \<and> \<not> grow b"
proof -
  let ?g1 = "g\<lparr>ticksPerMovement := 30, SnakeDirection := UP, countDownNum := 3,
                 score := 0, skeleTicks := 0\<rparr>"
  let ?sp = "SpawnSnake ?g1 (go_quot (width ?g1) 2) (go_quot (height ?g1) 2)"
  have "SpawnFood ((snd ?sp)\<lparr>SnakeBody := fst ?sp\<rparr>) rs = Some (Inr (g', rs'))"
    using assms by (simp add: Reset_def Let_def case_prod_beta)
  then obtain f where "g' = ((snd ?sp)\<lparr>SnakeBody := fst ?sp\<rparr>)\<lparr>food := Some f\<rparr>"
    using SpawnFood_only_food by blast
  then show ?thesis
    by (simp add: SpawnSnake_def Let_def deref_def)
qed

text \<open>The game that \<^verbatim>\<open>NewGame\<close> returns.\<close>

lemma NewGame_fields:
  assumes "NewGame w h rs = Some (Inr (g, rs'))"
  shows "state g = StateMainMenu \<and> skeleTicksPerSegment g = 2 \<and> ticksPerMovement g = 5 \<and>
         width g = w \<and> height g = h \<and> score g = 0"
proof -
  let ?g0 = "\<lparr>state = 0, width = w, height = h, SnakeBody = None, SnakeDirection = 0,
               food = None, ticks = 0, ticksPerMovement = 0, score = 0, countDownNum = 0,
               countDownTicks = 0, skeleTicks = 0, skeleTicksPerSegment = 2,
               tongueShow = False, tongueTicks = 0, tongueTicksMin = 20,
               heap = Map.empty, heap_next = 0\<rparr>"
  from assms obtain g1 rs1 where r1: "Reset ?g0 rs = Some (Inr (g1, rs1))"
    and c: "ChangeState g1 StateMainMenu rs1 = Some (Inr (g, rs'))"
    by (cases "Reset ?g0 rs") (auto simp: NewGame_def bindR_def Let_def split: sum.splits)
  from c obtain g2 rs2 where r2: "Reset g1 rs1 = Some (Inr (g2, rs2))"
    and c2: "bindR (ChangeState_loop 0 g2 rs2)
        (\<lambda>(g3, rs3). Some (Inr (g3\<lparr>ticksPerMovement := 5, state := StateMainMenu\<rparr>, rs3))) =
      Some (Inr (g, rs'))"
    by (cases "Reset g1 rs1") (auto simp: ChangeState_def bindR_def split: sum.splits)
  from c2 obtain g3 where l: "ChangeState_loop 0 g2 rs2 = Some (Inr (g3, rs'))"
    and g: "g = g3\<lparr>ticksPerMovement := 5, state := StateMainMenu\<rparr>"
    by (cases "ChangeState_loop 0 g2 rs2") (auto simp: bindR_def split: sum.splits)
  from ChangeState_loop_fields [OF l] Reset_fields [OF r2] Reset_fields [OF r1]
    Reset_speed [OF r2] g
  show ?thesis
    by simp
qed

end
